theory Spec2Isabelle
  imports Complex_Main "HOL-Library.Sublist"
begin

section \<open>Reference conditioning units (control_reference.py)\<close>

text \<open>
  A shallow embedding of \<^verbatim>\<open>adv_control/control_reference.py\<close>. Python floats are
  idealised as real numbers, Python objects are values, and every mutation is explicit
  state passing. Tensors are values of a type parameter \<open>'t\<close>; what torch and the
  wrapped network compute on them is passed to the model as functions.
\<close>

subsection \<open>Exceptions\<close>

datatype py_error =
  KeyError | ZeroDivisionError | AttributeError | AssertionError | IndexError
  | UnboundLocalError | RuntimeError | Raised string

subsection \<open>MachineState and ReferenceType\<close>

text \<open>
  Both classes only hold string constants; the code compares them with \<open>==\<close> and
  \<open>in\<close>, so each constant is a constructor.
\<close>

datatype MachineState = WRITE | READ | STYLEALIGN | OFF

datatype ReferenceType = ATTN | ADAIN | ATTN_ADAIN | STYLE_ALIGN

definition LIST_ATTN :: "ReferenceType list" where
  "LIST_ATTN = [ATTN, ATTN_ADAIN]"

definition LIST_ADAIN :: "ReferenceType list" where
  "LIST_ADAIN = [ADAIN, ATTN_ADAIN]"

definition is_attn :: "ReferenceType \<Rightarrow> bool" where
  "is_attn ref_type = (ref_type \<in> set LIST_ATTN)"

definition is_adain :: "ReferenceType \<Rightarrow> bool" where
  "is_adain ref_type = (ref_type \<in> set LIST_ADAIN)"

subsection \<open>ReferenceOptions\<close>

record ReferenceOptions =
  reference_type :: ReferenceType
  original_attn_style_fidelity :: real
  attn_style_fidelity :: real
  attn_ref_weight :: real
  attn_strength :: real
  original_adain_style_fidelity :: real
  adain_style_fidelity :: real
  adain_ref_weight :: real
  adain_strength :: real
  ref_with_other_cns :: bool

text \<open>
  \<^verbatim>\<open>ReferenceOptions.__init__\<close>. The keyword defaults of the source
  (\<^verbatim>\<open>attn_strength=1.0, adain_strength=1.0, ref_with_other_cns=False\<close>) are the three
  constants below; a caller that leaves an argument out passes the constant.
\<close>

definition default_attn_strength :: real where
  "default_attn_strength = 1"

definition default_adain_strength :: real where
  "default_adain_strength = 1"

definition default_ref_with_other_cns :: bool where
  "default_ref_with_other_cns = False"

definition ReferenceOptions_init ::
  "ReferenceType \<Rightarrow> real \<Rightarrow> real \<Rightarrow> real \<Rightarrow> real \<Rightarrow> real \<Rightarrow> real \<Rightarrow> bool \<Rightarrow> ReferenceOptions"
where
  "ReferenceOptions_init rtype attn_fid adain_fid attn_w adain_w attn_s adain_s with_other =
     \<lparr> reference_type = rtype,
       original_attn_style_fidelity = attn_fid,
       attn_style_fidelity = attn_fid,
       attn_ref_weight = attn_w,
       attn_strength = attn_s,
       original_adain_style_fidelity = adain_fid,
       adain_style_fidelity = adain_fid,
       adain_ref_weight = adain_w,
       adain_strength = adain_s,
       ref_with_other_cns = with_other \<rparr>"

subsection \<open>ReferenceAdvanced\<close>

text \<open>
  \<^verbatim>\<open>ReferenceAdvanced\<close> inherits from \<^verbatim>\<open>ControlBase\<close> and
  \<^verbatim>\<open>AdvancedControlBase\<close>, which are not part of this file. The inherited state the
  code below reads is the record \<open>ControlBase\<close>: the overall strength, the strength of the
  current timestep keyframe (\<open>None\<close> when there is no current keyframe), the answer of the
  inherited \<^verbatim>\<open>should_run()\<close> for this step, and the prepared hint tensor.
  \<^verbatim>\<open>ReferenceAdvanced\<close> extends that record with its own attributes.
\<close>

record 't ControlBase =
  strength :: real
  current_timestep_keyframe_strength :: "real option"
  base_should_run :: bool
  cond_hint :: "'t option"

record 't ReferenceAdvanced = "'t ControlBase" +
  ref_opts :: ReferenceOptions
  order :: int
  should_apply_attn_effective_strength :: bool
  should_apply_adain_effective_strength :: bool
  should_apply_effective_masks :: bool
  is_context_ref :: bool

text \<open>
  \<^verbatim>\<open>ReferenceAdvanced.__init__\<close>: \<open>base\<close> is what the two inherited constructors
  have set up.
\<close>

definition ReferenceAdvanced_init ::
  "ReferenceOptions \<Rightarrow> 't ControlBase \<Rightarrow> 't ReferenceAdvanced"
where
  "ReferenceAdvanced_init opts base =
     \<lparr> strength = strength base,
       current_timestep_keyframe_strength = current_timestep_keyframe_strength base,
       base_should_run = base_should_run base,
       cond_hint = cond_hint base,
       ref_opts = opts,
       order = 0,
       should_apply_attn_effective_strength = False,
       should_apply_adain_effective_strength = False,
       should_apply_effective_masks = False,
       is_context_ref = False \<rparr>"

definition any_attn_strength_to_apply :: "'t ReferenceAdvanced \<Rightarrow> bool" where
  "any_attn_strength_to_apply self =
     (should_apply_attn_effective_strength self \<or> should_apply_effective_masks self)"

definition any_adain_strength_to_apply :: "'t ReferenceAdvanced \<Rightarrow> bool" where
  "any_adain_strength_to_apply self =
     (should_apply_adain_effective_strength self \<or> should_apply_effective_masks self)"

definition get_effective_strength :: "'t ReferenceAdvanced \<Rightarrow> real" where
  "get_effective_strength self =
     (case current_timestep_keyframe_strength self of
        None \<Rightarrow> strength self
      | Some k \<Rightarrow> strength self * k)"

subsection \<open>math.isclose and should_run\<close>

text \<open>
  Python's \<^verbatim>\<open>math.isclose(a, b)\<close> with its default tolerances
  \<^verbatim>\<open>rel_tol=1e-09\<close> and \<^verbatim>\<open>abs_tol=0.0\<close>, which is how every call in this file
  uses it.
\<close>

definition rel_tol :: real where
  "rel_tol = 1 / 10 ^ 9"

definition abs_tol :: real where
  "abs_tol = 0"

definition isclose :: "real \<Rightarrow> real \<Rightarrow> bool" where
  "isclose a b = (a = b \<or> \<bar>a - b\<bar> \<le> max (rel_tol * max \<bar>a\<bar> \<bar>b\<bar>) abs_tol)"

definition should_run :: "'t ReferenceAdvanced \<Rightarrow> bool" where
  "should_run self =
     (let running = base_should_run self in
      if \<not> running then running
      else
        let attn_run =
              (if is_attn (reference_type (ref_opts self))
               then \<not> (isclose (attn_ref_weight (ref_opts self)) 0
                        \<or> isclose (attn_strength (ref_opts self)) 0)
               else False);
            adain_run =
              (if is_adain (reference_type (ref_opts self))
               then \<not> (isclose (adain_ref_weight (ref_opts self)) 0
                        \<or> isclose (adain_strength (ref_opts self)) 0)
               else False)
        in attn_run \<or> adain_run)"

subsection \<open>transformer_options\<close>

text \<open>
  \<^verbatim>\<open>transformer_options\<close> is a dictionary with string keys. The keys this file reads
  or writes are the fields of the record, named by the key's string; \<open>None\<close> is an absent
  key. \<^verbatim>\<open>contextref_options_class\<close> can only be bound to the class
  \<^verbatim>\<open>ReferenceOptions\<close>, so its field says whether the key is bound.
\<close>

record 't transformer_options =
  cond_or_uncond :: "int list option"
  ref_control_list_all :: "'t ReferenceAdvanced list option"
  contextref_control_list_all :: "'t ReferenceAdvanced list option"
  contextref_attn_machine_state :: "MachineState option"
  contextref_adain_machine_state :: "MachineState option"
  contextref_options_class :: bool
  ref_read_attn_control_list :: "'t ReferenceAdvanced list option"
  ref_write_attn_control_list :: "'t ReferenceAdvanced list option"
  ref_read_adain_control_list :: "'t ReferenceAdvanced list option"
  ref_write_adain_control_list :: "'t ReferenceAdvanced list option"
  ref_uncond_idxs :: "nat list option"
  ref_cond_idxs :: "nat list option"

subsection \<open>handle_context_ref_setup\<close>

text \<open>
  The function mutates the dictionary and returns the new list; the model returns both.
  \<open>base\<close> is the inherited state of the fresh \<^verbatim>\<open>ReferenceAdvanced\<close>.
\<close>

definition handle_context_ref_setup ::
  "'t ControlBase \<Rightarrow> 't transformer_options
     \<Rightarrow> 't ReferenceAdvanced list \<times> 't transformer_options"
where
  "handle_context_ref_setup base topts =
     (let topts1 = topts\<lparr>contextref_attn_machine_state := Some OFF\<rparr>;
          topts2 = topts1\<lparr>contextref_adain_machine_state := Some OFF\<rparr>;
          opts = ReferenceOptions_init ATTN 1 0 1 0 1 default_adain_strength
                   default_ref_with_other_cns;
          cref = ReferenceAdvanced_init opts base;
          cref = cref\<lparr>order := - 1\<rparr>;
          context_ref_list = [cref];
          topts3 = topts2\<lparr>contextref_control_list_all := Some context_ref_list\<rparr>;
          topts4 = topts3\<lparr>contextref_options_class := True\<rparr>
      in (context_ref_list, topts4))"

subsection \<open>ref_noise_latents\<close>

text \<open>
  For this function a tensor is a list of rows, one per batch entry, each row the
  flattened remaining dimensions; \<open>sigma\<close> is a one-dimensional tensor. After the three
  \<^verbatim>\<open>unsqueeze(-1)\<close> the products broadcast \<open>sigma\<close> along the batch dimension:
  \<open>broadcast0\<close> is torch's rule for that dimension (equal sizes, or one of them 1, else
  a RuntimeError). Rows are combined element by element and must have the same number
  of elements. \<^verbatim>\<open>torch.randn_like\<close> draws one number per element of \<open>latents\<close>;
  \<open>randn b j\<close> is the number drawn for element \<open>j\<close> of row \<open>b\<close> (its distribution is
  outside the model).
\<close>

definition broadcast0 :: "'a list \<Rightarrow> 'b list \<Rightarrow> py_error + ('a \<times> 'b) list" where
  "broadcast0 xs ys =
     (if length xs = length ys then Inr (zip xs ys)
      else if length xs = 1 then Inr (map (\<lambda>y. (hd xs, y)) ys)
      else if length ys = 1 then Inr (map (\<lambda>x. (x, hd ys)) xs)
      else Inl RuntimeError)"

definition mul_rows :: "real list \<Rightarrow> real list list \<Rightarrow> py_error + real list list" where
  "mul_rows cs t =
     (case broadcast0 cs t of
        Inl e \<Rightarrow> Inl e
      | Inr ps \<Rightarrow> Inr (map (\<lambda>(c, row). map (\<lambda>v. c * v) row) ps))"

definition add_rows :: "real list list \<Rightarrow> real list list \<Rightarrow> py_error + real list list" where
  "add_rows a b =
     (case broadcast0 a b of
        Inl e \<Rightarrow> Inl e
      | Inr ps \<Rightarrow>
          if list_all (\<lambda>(r1, r2). length r1 = length r2) ps
          then Inr (map (\<lambda>(r1, r2). map2 (+) r1 r2) ps)
          else Inl RuntimeError)"

definition randn_like :: "(nat \<Rightarrow> nat \<Rightarrow> real) \<Rightarrow> real list list \<Rightarrow> real list list" where
  "randn_like randn latents =
     map (\<lambda>b. map (\<lambda>j. randn b j) [0..<length (latents ! b)]) [0..<length latents]"

definition ref_noise_latents ::
  "(nat \<Rightarrow> nat \<Rightarrow> real) \<Rightarrow> real list list \<Rightarrow> real list \<Rightarrow> real list list option
     \<Rightarrow> py_error + real list list"
where
  "ref_noise_latents randn latents sigma noise =
     (let alpha_cumprod = map (\<lambda>s. 1 / ((s * s) + 1)) sigma;
          sqrt_alpha_prod = map sqrt alpha_cumprod;
          sqrt_one_minus_alpha_prod = map (\<lambda>a. sqrt (1 - a)) alpha_cumprod;
          noise = (case noise of None \<Rightarrow> randn_like randn latents | Some n \<Rightarrow> n)
      in case mul_rows sqrt_alpha_prod latents of
           Inl e \<Rightarrow> Inl e
         | Inr a \<Rightarrow>
             (case mul_rows sqrt_one_minus_alpha_prod noise of
                Inl e \<Rightarrow> Inl e
              | Inr b \<Rightarrow> add_rows a b))"

text \<open>
  The noising formula of the specification for one row, written with
  \<open>\<alpha> = 1 / (\<sigma>\<^sup>2 + 1)\<close>: each element is \<open>sqrt \<alpha> * latent + sqrt (1 - \<alpha>) * noise\<close>.
\<close>

definition noised_row :: "real \<Rightarrow> real list \<Rightarrow> real list \<Rightarrow> real list" where
  "noised_row s l n =
     map2 (\<lambda>x z. sqrt (1 / (s\<^sup>2 + 1)) * x + sqrt (1 - 1 / (s\<^sup>2 + 1)) * z) l n"

subsection \<open>Banks\<close>

text \<open>
  \<^verbatim>\<open>BankStylesBasicTransformerBlock\<close> (attention) and
  \<^verbatim>\<open>BankStylesTimestepEmbedSequential\<close> (normalization). The two classes share
  attribute and method names; the normalization ones carry the prefix \<open>gn_\<close> here, and
  the methods are prefixed \<open>attn_bank_\<close> and \<open>gn_bank_\<close>.
\<close>

record 't BankStylesBasicTransformerBlock =
  bank :: "'t list"
  style_cfgs :: "real list"
  cn_idx :: "int list"
  c_bank :: "'t list"
  c_style_cfgs :: "real list"
  c_cn_idx :: "int list"

definition attn_bank_init :: "'t BankStylesBasicTransformerBlock" where
  "attn_bank_init =
     \<lparr> bank = [], style_cfgs = [], cn_idx = [], c_bank = [], c_style_cfgs = [], c_cn_idx = [] \<rparr>"

definition get_bank :: "'t BankStylesBasicTransformerBlock \<Rightarrow> bool \<Rightarrow> 't list" where
  "get_bank self ignore_contextref =
     (if ignore_contextref then bank self else bank self @ c_bank self)"

definition get_avg_style_fidelity ::
  "'t BankStylesBasicTransformerBlock \<Rightarrow> bool \<Rightarrow> py_error + real"
where
  "get_avg_style_fidelity self ignore_contextref =
     (if ignore_contextref then
        (if length (style_cfgs self) = 0 then Inl ZeroDivisionError
         else Inr (sum_list (style_cfgs self) / real (length (style_cfgs self))))
      else
        (let combined = style_cfgs self @ c_style_cfgs self in
         if length combined = 0 then Inl ZeroDivisionError
         else Inr (sum_list combined / real (length combined))))"

definition get_cn_idxs :: "'t BankStylesBasicTransformerBlock \<Rightarrow> bool \<Rightarrow> int list" where
  "get_cn_idxs self ignore_contxtref =
     (if ignore_contxtref then cn_idx self else cn_idx self @ c_cn_idx self)"

definition attn_bank_clean_ref ::
  "'t BankStylesBasicTransformerBlock \<Rightarrow> 't BankStylesBasicTransformerBlock"
where
  "attn_bank_clean_ref self = self\<lparr>bank := [], style_cfgs := [], cn_idx := []\<rparr>"

definition attn_bank_clean_contextref ::
  "'t BankStylesBasicTransformerBlock \<Rightarrow> 't BankStylesBasicTransformerBlock"
where
  "attn_bank_clean_contextref self = self\<lparr>c_bank := [], c_style_cfgs := [], c_cn_idx := []\<rparr>"

definition attn_bank_clean_all ::
  "'t BankStylesBasicTransformerBlock \<Rightarrow> 't BankStylesBasicTransformerBlock"
where
  "attn_bank_clean_all self = attn_bank_clean_contextref (attn_bank_clean_ref self)"

record 't BankStylesTimestepEmbedSequential =
  var_bank :: "'t list"
  mean_bank :: "'t list"
  gn_style_cfgs :: "real list"
  gn_cn_idx :: "int list"
  c_var_bank :: "'t list"
  c_mean_bank :: "'t list"
  gn_c_style_cfgs :: "real list"
  gn_c_cn_idx :: "int list"

definition gn_bank_init :: "'t BankStylesTimestepEmbedSequential" where
  "gn_bank_init =
     \<lparr> var_bank = [], mean_bank = [], gn_style_cfgs = [], gn_cn_idx = [],
       c_var_bank = [], c_mean_bank = [], gn_c_style_cfgs = [], gn_c_cn_idx = [] \<rparr>"

definition get_var_bank :: "'t BankStylesTimestepEmbedSequential \<Rightarrow> bool \<Rightarrow> 't list" where
  "get_var_bank self ignore_contextref =
     (if ignore_contextref then var_bank self else var_bank self @ c_var_bank self)"

definition get_mean_bank :: "'t BankStylesTimestepEmbedSequential \<Rightarrow> bool \<Rightarrow> 't list" where
  "get_mean_bank self ignore_contextref =
     (if ignore_contextref then mean_bank self else mean_bank self @ c_mean_bank self)"

definition get_style_cfgs :: "'t BankStylesTimestepEmbedSequential \<Rightarrow> bool \<Rightarrow> real list" where
  "get_style_cfgs self ignore_contextref =
     (if ignore_contextref then gn_style_cfgs self
      else gn_style_cfgs self @ gn_c_style_cfgs self)"

definition get_cn_idx :: "'t BankStylesTimestepEmbedSequential \<Rightarrow> bool \<Rightarrow> int list" where
  "get_cn_idx self ignore_contextref =
     (if ignore_contextref then gn_cn_idx self else gn_cn_idx self @ gn_c_cn_idx self)"

definition gn_bank_clean_ref ::
  "'t BankStylesTimestepEmbedSequential \<Rightarrow> 't BankStylesTimestepEmbedSequential"
where
  "gn_bank_clean_ref self =
     self\<lparr>mean_bank := [], var_bank := [], gn_style_cfgs := [], gn_cn_idx := []\<rparr>"

definition gn_bank_clean_contextref ::
  "'t BankStylesTimestepEmbedSequential \<Rightarrow> 't BankStylesTimestepEmbedSequential"
where
  "gn_bank_clean_contextref self =
     self\<lparr>c_var_bank := [], c_mean_bank := [], gn_c_style_cfgs := [], gn_c_cn_idx := []\<rparr>"

definition gn_bank_clean_all ::
  "'t BankStylesTimestepEmbedSequential \<Rightarrow> 't BankStylesTimestepEmbedSequential"
where
  "gn_bank_clean_all self = gn_bank_clean_contextref (gn_bank_clean_ref self)"

subsection \<open>Injection holders and ReferenceInjections\<close>

text \<open>
  The holders without \<^verbatim>\<open>original_forward\<close> and \<^verbatim>\<open>idx\<close>, which no statement
  below reads. A patched module is its \<^verbatim>\<open>injection_holder\<close>; \<open>None\<close> is a module
  without one, on which every method call raises, which the bulk cleaners catch and
  pass over.
\<close>

record 't InjectionBasicTransformerBlockHolder =
  attn_weight :: real
  is_middle :: bool
  bank_styles :: "'t BankStylesBasicTransformerBlock"

record 't InjectionTimestepEmbedSequentialHolder =
  gn_weight :: real
  gn_is_middle :: bool
  is_input :: bool
  is_output :: bool
  gn_bank_styles :: "'t BankStylesTimestepEmbedSequential"

definition attn_holder_clean_ref ::
  "'t InjectionBasicTransformerBlockHolder \<Rightarrow> 't InjectionBasicTransformerBlockHolder"
where
  "attn_holder_clean_ref self = self\<lparr>bank_styles := attn_bank_clean_ref (bank_styles self)\<rparr>"

definition attn_holder_clean_contextref ::
  "'t InjectionBasicTransformerBlockHolder \<Rightarrow> 't InjectionBasicTransformerBlockHolder"
where
  "attn_holder_clean_contextref self =
     self\<lparr>bank_styles := attn_bank_clean_contextref (bank_styles self)\<rparr>"

definition gn_holder_clean_ref ::
  "'t InjectionTimestepEmbedSequentialHolder \<Rightarrow> 't InjectionTimestepEmbedSequentialHolder"
where
  "gn_holder_clean_ref self =
     self\<lparr>gn_bank_styles := gn_bank_clean_ref (gn_bank_styles self)\<rparr>"

definition gn_holder_clean_contextref ::
  "'t InjectionTimestepEmbedSequentialHolder \<Rightarrow> 't InjectionTimestepEmbedSequentialHolder"
where
  "gn_holder_clean_contextref self =
     self\<lparr>gn_bank_styles := gn_bank_clean_contextref (gn_bank_styles self)\<rparr>"

record 't ReferenceInjections =
  attn_modules :: "'t InjectionBasicTransformerBlockHolder option list"
  gn_modules :: "'t InjectionTimestepEmbedSequentialHolder option list"

text \<open>
  \<^verbatim>\<open>try: module.injection_holder.clean_ref() except Exception: pass\<close>, for every
  module: a module without a holder is left as it is.
\<close>

definition clean_ref_module_mem :: "'t ReferenceInjections \<Rightarrow> 't ReferenceInjections" where
  "clean_ref_module_mem self =
     self\<lparr>attn_modules := map (map_option attn_holder_clean_ref) (attn_modules self),
          gn_modules := map (map_option gn_holder_clean_ref) (gn_modules self)\<rparr>"

definition clean_contextref_module_mem :: "'t ReferenceInjections \<Rightarrow> 't ReferenceInjections" where
  "clean_contextref_module_mem self =
     self\<lparr>attn_modules := map (map_option attn_holder_clean_contextref) (attn_modules self),
          gn_modules := map (map_option gn_holder_clean_contextref) (gn_modules self)\<rparr>"

section \<open>The forward interceptor\<close>

subsection \<open>Process state\<close>

text \<open>
  \<^verbatim>\<open>openaimodel.forward_timestep_embed\<close> is a module-level function that the
  interceptor replaces by \<^verbatim>\<open>forward_timestep_embed_ref_inject_factory(orig)\<close>, a
  closure around the function it replaces (\<open>ref_inject_closure orig\<close>).
\<close>

datatype dispatch = comfy_forward_timestep_embed | ref_inject_closure dispatch

definition forward_timestep_embed_ref_inject_factory :: "dispatch \<Rightarrow> dispatch" where
  "forward_timestep_embed_ref_inject_factory orig_timestep_embed_inject_factory =
     ref_inject_closure orig_timestep_embed_inject_factory"

text \<open>
  Everything a call can change: the banks of the patched modules, the module-level
  dispatch function, and the \<^verbatim>\<open>transformer_options\<close> dictionary (one mutable
  object, shared with the wrapped network through \<^verbatim>\<open>kwargs\<close>). \<open>forward_calls\<close>
  is not in the source: it records the input of every call of
  \<^verbatim>\<open>diffusion_model_orig_forward\<close>, in order, for the statements about the
  number of passes.
\<close>

record 't world =
  reference_injections :: "'t ReferenceInjections"
  forward_timestep_embed :: dispatch
  kwargs_transformer_options :: "'t transformer_options"
  forward_calls :: "'t list"

text \<open>
  \<^verbatim>\<open>reference_injections.diffusion_model_orig_forward\<close>, the wrapped network: it
  takes the input, the \<^verbatim>\<open>control\<close> entry of \<^verbatim>\<open>kwargs\<close> and the state, and
  returns or raises, leaving a state behind either way.
\<close>

type_synonym ('t, 'c) orig_forward =
  "'t \<Rightarrow> 'c option \<Rightarrow> 't world \<Rightarrow> (py_error + 't) \<times> 't world"

definition call_orig_forward ::
  "('t, 'c) orig_forward \<Rightarrow> 't \<Rightarrow> 'c option \<Rightarrow> 't world \<Rightarrow> (py_error + 't) \<times> 't world"
where
  "call_orig_forward fwd x ctrl w =
     (case fwd x ctrl w of
        (r, w') \<Rightarrow> (r, w'\<lparr>forward_calls := forward_calls w @ [x]\<rparr>))"

subsection \<open>factory_forward_inject_UNetModel\<close>

text \<open>Lines 653-659: the cond and uncond indices, \<open>(REF_UNCOND_IDXS, REF_COND_IDXS)\<close>.\<close>

definition assign_cond_idxs :: "nat \<Rightarrow> int list \<Rightarrow> py_error + nat list \<times> nat list" where
  "assign_cond_idxs x_shape0 cond_or_uncond_list =
     (let batched_number = length cond_or_uncond_list in
      if batched_number = 0 then Inl ZeroDivisionError
      else
        let per_batch = x_shape0 div batched_number;
            indiv_conds = concat (map (\<lambda>cond_type. replicate per_batch cond_type)
                                    cond_or_uncond_list)
        in Inr ([i. (i, z) \<leftarrow> enumerate 0 indiv_conds, z = 1],
                [i. (i, z) \<leftarrow> enumerate 0 indiv_conds, z = 0]))"

definition set_control_lists ::
  "'t ReferenceAdvanced list \<Rightarrow> 't ReferenceAdvanced list \<Rightarrow> 't ReferenceAdvanced list
     \<Rightarrow> 't ReferenceAdvanced list \<Rightarrow> 't world \<Rightarrow> 't world"
where
  "set_control_lists read_attn_list write_attn_list read_adain_list write_adain_list w =
     w\<lparr>kwargs_transformer_options :=
         (kwargs_transformer_options w)
           \<lparr>ref_read_attn_control_list := Some read_attn_list,
            ref_write_attn_control_list := Some write_attn_list,
            ref_read_adain_control_list := Some read_adain_list,
            ref_write_adain_control_list := Some write_adain_list\<rparr>\<rparr>"

text \<open>
  Lines 681-704: one reference pass per RefCN unit, on the unit's hint. A unit without
  a hint raises on \<^verbatim>\<open>control.cond_hint.to(...)\<close>; an exception ends the loop.
\<close>

fun ref_write_passes ::
  "('t, 'c) orig_forward \<Rightarrow> 'c option \<Rightarrow> 't ReferenceAdvanced list \<Rightarrow> 't world
     \<Rightarrow> (py_error + unit) \<times> 't world"
where
  "ref_write_passes fwd ctrl [] w = (Inr (), w)"
| "ref_write_passes fwd ctrl (control # rest) w =
     (let read_attn_list = [];
          write_attn_list =
            (if is_attn (reference_type (ref_opts control)) then [control] else []);
          read_adain_list = [];
          write_adain_list =
            (if is_adain (reference_type (ref_opts control)) then [control] else []);
          w1 = set_control_lists read_attn_list write_attn_list read_adain_list
                 write_adain_list w;
          ctrl' = (if \<not> ref_with_other_cns (ref_opts control) then None else ctrl)
      in case cond_hint control of
           None \<Rightarrow> (Inl AttributeError, w1)
         | Some hint \<Rightarrow>
             (case call_orig_forward fwd hint ctrl' w1 of
                (Inl e, w2) \<Rightarrow> (Inl e, w2)
              | (Inr _, w2) \<Rightarrow> ref_write_passes fwd ctrl rest w2))"

text \<open>
  Lines 706-735: the lists of the real pass. The two lookups of the ContextRef machine
  states raise KeyError on an absent key, before any list is stored.
\<close>

definition real_pass_lists ::
  "'t ReferenceAdvanced list \<Rightarrow> 't ReferenceAdvanced list \<Rightarrow> 't ReferenceAdvanced list
     \<Rightarrow> 't ReferenceAdvanced list \<Rightarrow> 't ReferenceAdvanced list \<Rightarrow> 't world
     \<Rightarrow> (py_error + unit) \<times> 't world"
where
  "real_pass_lists attn_controlnets adain_controlnets context_controlnets
       context_attn_controlnets context_adain_controlnets w =
     (let read_attn_list = [] @ attn_controlnets;
          write_attn_list = [];
          read_adain_list = [] @ adain_controlnets;
          write_adain_list = []
      in
      if length context_controlnets > 0 then
        (case contextref_attn_machine_state (kwargs_transformer_options w) of
           None \<Rightarrow> (Inl KeyError, w)
         | Some attn_state \<Rightarrow>
             let w1 = (if attn_state \<in> set [WRITE, OFF]
                       then w\<lparr>reference_injections :=
                                clean_contextref_module_mem (reference_injections w)\<rparr>
                       else w);
                 write_attn_list = (if attn_state = WRITE
                                    then write_attn_list @ context_attn_controlnets
                                    else write_attn_list);
                 read_attn_list = (if attn_state \<noteq> WRITE \<and> attn_state = READ
                                   then read_attn_list @ context_attn_controlnets
                                   else read_attn_list)
             in
             (case contextref_adain_machine_state (kwargs_transformer_options w1) of
                None \<Rightarrow> (Inl KeyError, w1)
              | Some adain_state \<Rightarrow>
                  let write_attn_list = (if adain_state = WRITE
                                         then write_attn_list @ context_adain_controlnets
                                         else write_attn_list);
                      read_attn_list = (if adain_state \<noteq> WRITE \<and> adain_state = READ
                                        then read_attn_list @ context_adain_controlnets
                                        else read_attn_list)
                  in (Inr (), set_control_lists read_attn_list write_attn_list
                                read_adain_list write_adain_list w1)))
      else (Inr (), set_control_lists read_attn_list write_attn_list
                      read_adain_list write_adain_list w))"

text \<open>
  The body of the \<^verbatim>\<open>try\<close> (lines 652-737). Besides the outcome and the state it
  returns the two local variables that the \<^verbatim>\<open>finally\<close> block reads,
  \<^verbatim>\<open>adain_controlnets\<close> and \<^verbatim>\<open>orig_forward_timestep_embed\<close>, each \<open>None\<close>
  while unbound. \<open>x_shape0\<close> is \<^verbatim>\<open>x.shape[0]\<close>.
\<close>

definition forward_inject_try ::
  "('t \<Rightarrow> nat) \<Rightarrow> ('t, 'c) orig_forward \<Rightarrow> 't \<Rightarrow> 'c option
     \<Rightarrow> 't ReferenceAdvanced list \<Rightarrow> 't ReferenceAdvanced list \<Rightarrow> 't world
     \<Rightarrow> (py_error + 't) \<times> 't ReferenceAdvanced list option \<times> dispatch option \<times> 't world"
where
  "forward_inject_try x_shape0 fwd x ctrl ref_controlnets context_controlnets w =
     (case cond_or_uncond (kwargs_transformer_options w) of
        None \<Rightarrow> (Inl KeyError, None, None, w)
      | Some cond_or_uncond_list \<Rightarrow>
          (case assign_cond_idxs (x_shape0 x) cond_or_uncond_list of
             Inl e \<Rightarrow> (Inl e, None, None, w)
           | Inr (uncond_idxs, cond_idxs) \<Rightarrow>
               let w1 = w\<lparr>kwargs_transformer_options :=
                             (kwargs_transformer_options w)
                               \<lparr>ref_uncond_idxs := Some uncond_idxs,
                                ref_cond_idxs := Some cond_idxs\<rparr>\<rparr>;
                   attn_controlnets =
                     filter (\<lambda>control. is_attn (reference_type (ref_opts control)))
                       ref_controlnets;
                   adain_controlnets =
                     filter (\<lambda>control. is_adain (reference_type (ref_opts control)))
                       ref_controlnets;
                   context_attn_controlnets =
                     filter (\<lambda>control. is_attn (reference_type (ref_opts control)))
                       context_controlnets;
                   context_adain_controlnets =
                     filter (\<lambda>control. is_adain (reference_type (ref_opts control)))
                       context_controlnets;
                   substitute = (length adain_controlnets > 0
                                 \<or> length context_adain_controlnets > 0);
                   orig_forward_timestep_embed =
                     (if substitute then Some (forward_timestep_embed w1) else None);
                   w2 = (if substitute
                         then w1\<lparr>forward_timestep_embed :=
                                   forward_timestep_embed_ref_inject_factory
                                     (forward_timestep_embed w1)\<rparr>
                         else w1)
               in
               (case ref_write_passes fwd ctrl ref_controlnets w2 of
                  (Inl e, w3) \<Rightarrow>
                    (Inl e, Some adain_controlnets, orig_forward_timestep_embed, w3)
                | (Inr _, w3) \<Rightarrow>
                    (case real_pass_lists attn_controlnets adain_controlnets
                            context_controlnets context_attn_controlnets
                            context_adain_controlnets w3 of
                       (Inl e, w4) \<Rightarrow>
                         (Inl e, Some adain_controlnets, orig_forward_timestep_embed, w4)
                     | (Inr _, w4) \<Rightarrow>
                         (case call_orig_forward fwd x ctrl w4 of
                            (r, w5) \<Rightarrow>
                              (r, Some adain_controlnets, orig_forward_timestep_embed,
                               w5))))))"

text \<open>
  The \<^verbatim>\<open>finally\<close> block (lines 738-742), run after the body whatever its outcome.
  Reading a local variable that was never bound raises UnboundLocalError, which then
  replaces the outcome of the body.
\<close>

definition forward_inject_finally ::
  "(py_error + 't) \<times> 't ReferenceAdvanced list option \<times> dispatch option \<times> 't world
     \<Rightarrow> (py_error + 't) \<times> 't world"
where
  "forward_inject_finally outcome =
     (case outcome of
        (r, adain_controlnets, orig_forward_timestep_embed, w) \<Rightarrow>
          let w1 = w\<lparr>reference_injections :=
                       clean_ref_module_mem (reference_injections w)\<rparr>
          in
          (case adain_controlnets of
             None \<Rightarrow> (Inl UnboundLocalError, w1)
           | Some adain_list \<Rightarrow>
               if length adain_list > 0 then
                 (case orig_forward_timestep_embed of
                    None \<Rightarrow> (Inl UnboundLocalError, w1)
                  | Some orig \<Rightarrow> (r, w1\<lparr>forward_timestep_embed := orig\<rparr>))
               else (r, w1)))"

text \<open>
  \<^verbatim>\<open>forward_inject_UNetModel\<close> as returned by
  \<^verbatim>\<open>factory_forward_inject_UNetModel(reference_injections)\<close> (lines 635-742).
\<close>

definition running_ref_controlnets :: "'t world \<Rightarrow> 't ReferenceAdvanced list" where
  "running_ref_controlnets w =
     filter should_run
       (case ref_control_list_all (kwargs_transformer_options w) of
          None \<Rightarrow> [] | Some l \<Rightarrow> l)"

definition running_context_controlnets :: "'t world \<Rightarrow> 't ReferenceAdvanced list" where
  "running_context_controlnets w =
     filter should_run
       (case contextref_control_list_all (kwargs_transformer_options w) of
          None \<Rightarrow> [] | Some l \<Rightarrow> l)"

definition forward_inject_UNetModel ::
  "('t \<Rightarrow> nat) \<Rightarrow> ('t, 'c) orig_forward \<Rightarrow> 't \<Rightarrow> 'c option \<Rightarrow> 't world
     \<Rightarrow> (py_error + 't) \<times> 't world"
where
  "forward_inject_UNetModel x_shape0 fwd x ctrl w =
     (let ref_controlnets = running_ref_controlnets w;
          context_controlnets = running_context_controlnets w
      in
      if length ref_controlnets = 0 \<and> length context_controlnets = 0
      then call_orig_forward fwd x ctrl w
      else forward_inject_finally
             (forward_inject_try x_shape0 fwd x ctrl ref_controlnets context_controlnets w))"

section \<open>The patched layers\<close>

subsection \<open>Tensors\<close>

text \<open>
  Sums, differences and products with a float are those of a real vector space. The
  other torch operations, and the mask that \<^verbatim>\<open>AdvancedControlBase\<close> resolves
  (\<^verbatim>\<open>apply_advanced_strengths_and_masks\<close>, not part of this file), are the fields of
  \<open>torch\<close>:
  \<^item> \<open>cat_dim1 ts\<close> is \<^verbatim>\<open>torch.cat(ts, dim=1)\<close>;
  \<^item> \<open>index_rows t idxs\<close> is \<^verbatim>\<open>t[idxs]\<close>, and \<open>index_put_rows t idxs v\<close> is \<open>t\<close>
    after \<^verbatim>\<open>t[idxs] = v\<close>;
  \<^item> \<open>t_mul\<close> and \<open>t_div\<close> are the element-wise product and quotient, \<open>one_minus m\<close>
    is \<^verbatim>\<open>1 - m\<close>;
  \<^item> \<open>var_mean x\<close> is \<^verbatim>\<open>torch.var_mean(x, dim=(2, 3), keepdim=True, correction=0)\<close>;
  \<^item> \<open>std_of_var v\<close> is \<^verbatim>\<open>torch.maximum(v, torch.zeros_like(v) + eps) ** 0.5\<close>;
  \<^item> \<open>shape2 t\<close> is \<^verbatim>\<open>t.shape[2]\<close>;
  \<^item> \<open>attn_real_mask self x divisor\<close> and \<open>adain_real_mask self x\<close> are the masks built in
    \<^verbatim>\<open>get_effective_attn_mask_or_float\<close> (lines 148-153) and
    \<^verbatim>\<open>get_effective_adain_mask_or_float\<close> (lines 158-161).
\<close>

record 't torch =
  cat_dim1 :: "'t list \<Rightarrow> 't"
  index_rows :: "'t \<Rightarrow> nat list \<Rightarrow> 't"
  index_put_rows :: "'t \<Rightarrow> nat list \<Rightarrow> 't \<Rightarrow> 't"
  t_mul :: "'t \<Rightarrow> 't \<Rightarrow> 't"
  t_div :: "'t \<Rightarrow> 't \<Rightarrow> 't"
  one_minus :: "'t \<Rightarrow> 't"
  var_mean :: "'t \<Rightarrow> 't \<times> 't"
  std_of_var :: "'t \<Rightarrow> 't"
  shape2 :: "'t \<Rightarrow> nat"
  attn_real_mask :: "'t ReferenceAdvanced \<Rightarrow> 't \<Rightarrow> nat \<Rightarrow> 't"
  adain_real_mask :: "'t ReferenceAdvanced \<Rightarrow> 't \<Rightarrow> 't"

datatype 't mask_or_float = Float real | Mask 't

definition CHANNEL_TO_MULT :: "nat \<Rightarrow> nat option" where
  "CHANNEL_TO_MULT channels =
     (if channels = 320 then Some 1
      else if channels = 640 then Some 2
      else if channels = 1280 then Some 4
      else None)"

definition get_effective_attn_mask_or_float ::
  "'t torch \<Rightarrow> 't ReferenceAdvanced \<Rightarrow> 't \<Rightarrow> nat \<Rightarrow> bool \<Rightarrow> py_error + 't mask_or_float"
where
  "get_effective_attn_mask_or_float torch self x channels is_mid =
     (if \<not> should_apply_effective_masks self
      then Inr (Float (get_effective_strength self * attn_strength (ref_opts self)))
      else
        (case (if is_mid then Some 8 else CHANNEL_TO_MULT channels) of
           None \<Rightarrow> Inl KeyError
         | Some divisor \<Rightarrow> Inr (Mask (attn_real_mask torch self x divisor))))"

definition get_effective_adain_mask_or_float ::
  "'t torch \<Rightarrow> 't ReferenceAdvanced \<Rightarrow> 't \<Rightarrow> 't mask_or_float"
where
  "get_effective_adain_mask_or_float torch self x =
     (if \<not> should_apply_effective_masks self
      then Float (get_effective_strength self * adain_strength (ref_opts self))
      else Mask (adain_real_mask torch self x))"

text \<open>\<^verbatim>\<open>a * effective_strength + b * (1 - effective_strength)\<close>.\<close>

definition blend_strength ::
  "('t::real_vector) torch \<Rightarrow> 't mask_or_float \<Rightarrow> 't \<Rightarrow> 't \<Rightarrow> 't"
where
  "blend_strength torch effective_strength a b =
     (case effective_strength of
        Float s \<Rightarrow> s *\<^sub>R a + (1 - s) *\<^sub>R b
      | Mask m \<Rightarrow> t_mul torch a m + t_mul torch b (one_minus torch m))"

subsection \<open>Matching a bank entry to its unit\<close>

text \<open>
  The inner loop of both READ paths (lines 946-950 and 1073-1077):
  \<^verbatim>\<open>for i in range(cn_idx, len(ref_read_cns))\<close> stops at the first unit whose order is
  the entry's and leaves \<^verbatim>\<open>cn_idx\<close> as it was when there is none; then
  \<^verbatim>\<open>assert order == ref_read_cns[cn_idx].order\<close>.
\<close>

definition find_cn_idx :: "'t ReferenceAdvanced list \<Rightarrow> int \<Rightarrow> nat \<Rightarrow> nat" where
  "find_cn_idx ref_read_cns entry_order cn_idx0 =
     (case List.find (\<lambda>i. order (ref_read_cns ! i) = entry_order)
             [cn_idx0..<length ref_read_cns] of
        Some i \<Rightarrow> i
      | None \<Rightarrow> cn_idx0)"

definition matched_cn_idx :: "'t ReferenceAdvanced list \<Rightarrow> int \<Rightarrow> nat \<Rightarrow> py_error + nat" where
  "matched_cn_idx ref_read_cns entry_order cn_idx0 =
     (let cn_idx1 = find_cn_idx ref_read_cns entry_order cn_idx0 in
      if cn_idx1 \<ge> length ref_read_cns then Inl IndexError
      else if entry_order = order (ref_read_cns ! cn_idx1) then Inr cn_idx1
      else Inl AssertionError)"


text \<open>
  The last line of both READ paths (lines 964 and 1093):
  \<^verbatim>\<open>style_fidelity * n_c + (1.0 - style_fidelity) * n_uc\<close>.
\<close>

definition fidelity_blend :: "real \<Rightarrow> ('t::real_vector) \<Rightarrow> 't \<Rightarrow> 't" where
  "fidelity_blend style_fidelity n_c n_uc =
     style_fidelity *\<^sub>R n_c + (1 - style_fidelity) *\<^sub>R n_uc"

subsection \<open>Attention injection\<close>

text \<open>
  The sub-modules of a transformer block that the reference code calls:
  \<open>before_norm1\<close> is lines 839-843, \<open>after_attn1 x n context\<close> is lines 969-1021
  (the residual sum, the second attention and the feed-forward). The model covers calls
  whose \<^verbatim>\<open>transformer_options\<close> carry neither \<^verbatim>\<open>patches\<close> nor
  \<^verbatim>\<open>patches_replace\<close>, so \<^verbatim>\<open>value_attn1\<close> stays \<open>None\<close> and the READ of lines
  936-967 is the one taken.
\<close>

record 't BasicTransformerBlock =
  before_norm1 :: "'t \<Rightarrow> 't"
  norm1 :: "'t \<Rightarrow> 't"
  disable_self_attn :: bool
  attn1 :: "'t \<Rightarrow> 't option \<Rightarrow> 't option \<Rightarrow> 't"
  after_attn1 :: "'t \<Rightarrow> 't \<Rightarrow> 't option \<Rightarrow> 't"

text \<open>
  WRITE (lines 861-876). The state of the loop is \<^verbatim>\<open>cached_n\<close>, the bank and
  \<^verbatim>\<open>ignore_contextref_read\<close>. \<^verbatim>\<open>n.detach().clone()\<close> is \<open>n\<close>.
\<close>

fun attn_write_loop ::
  "real \<Rightarrow> 't \<Rightarrow> 't ReferenceAdvanced list \<Rightarrow> 't ReferenceAdvanced list
     \<Rightarrow> 't option \<times> 't BankStylesBasicTransformerBlock \<times> bool
     \<Rightarrow> 't option \<times> 't BankStylesBasicTransformerBlock \<times> bool"
where
  "attn_write_loop holder_attn_weight n ref_write_cns [] st = st"
| "attn_write_loop holder_attn_weight n ref_write_cns (refcn # rest)
       (cached_n, bs, ignore_contextref_read) =
     (if attn_ref_weight (ref_opts refcn) > holder_attn_weight then
        (let cached = (case cached_n of None \<Rightarrow> n | Some c \<Rightarrow> c) in
         if is_context_ref refcn then
           attn_write_loop holder_attn_weight n ref_write_cns rest
             (Some cached,
              bs\<lparr>c_bank := c_bank bs @ [cached],
                 c_style_cfgs :=
                   c_style_cfgs bs @ [attn_style_fidelity (ref_opts (ref_write_cns ! 0))],
                 c_cn_idx := c_cn_idx bs @ [order (ref_write_cns ! 0)]\<rparr>,
              True)
         else
           attn_write_loop holder_attn_weight n ref_write_cns rest
             (Some cached,
              bs\<lparr>bank := bank bs @ [cached],
                 style_cfgs :=
                   style_cfgs bs @ [attn_style_fidelity (ref_opts (ref_write_cns ! 0))],
                 cn_idx := cn_idx bs @ [order (ref_write_cns ! 0)]\<rparr>,
              ignore_contextref_read))
      else attn_write_loop holder_attn_weight n ref_write_cns rest
             (cached_n, bs, ignore_contextref_read))"

definition attn_write ::
  "'t InjectionBasicTransformerBlockHolder \<Rightarrow> 't \<Rightarrow> 't ReferenceAdvanced list
     \<Rightarrow> 't BankStylesBasicTransformerBlock \<times> bool"
where
  "attn_write holder n ref_write_cns =
     (if length ref_write_cns > 0
      then snd (attn_write_loop (attn_weight holder) n ref_write_cns ref_write_cns
                  (None, bank_styles holder, False))
      else (bank_styles holder, False))"

text \<open>
  The loop of READ over \<^verbatim>\<open>enumerate(bank_styles.get_cn_idxs(...))\<close> (lines 943-953):
  it returns \<^verbatim>\<open>real_bank\<close>.
\<close>

fun attn_read_entries ::
  "('t::real_vector) torch \<Rightarrow> bool \<Rightarrow> 't ReferenceAdvanced list \<Rightarrow> 't \<Rightarrow> 't \<Rightarrow> nat
     \<Rightarrow> (nat \<times> int) list \<Rightarrow> 't list \<Rightarrow> py_error + 't list"
where
  "attn_read_entries torch is_mid ref_read_cns n context_attn1 cn_idx0 [] real_bank =
     Inr real_bank"
| "attn_read_entries torch is_mid ref_read_cns n context_attn1 cn_idx0
       ((idx, entry_order) # rest) real_bank =
     (case matched_cn_idx ref_read_cns entry_order cn_idx0 of
        Inl e \<Rightarrow> Inl e
      | Inr cn_idx1 \<Rightarrow>
          if any_attn_strength_to_apply (ref_read_cns ! cn_idx1) then
            (case get_effective_attn_mask_or_float torch (ref_read_cns ! cn_idx1) n
                    (shape2 torch n) is_mid of
               Inl e \<Rightarrow> Inl e
             | Inr effective_strength \<Rightarrow>
                 if idx < length real_bank then
                   attn_read_entries torch is_mid ref_read_cns n context_attn1 cn_idx1 rest
                     (real_bank[idx := blend_strength torch effective_strength
                                         (real_bank ! idx) context_attn1])
                 else Inl IndexError)
          else attn_read_entries torch is_mid ref_read_cns n context_attn1 cn_idx1 rest
                 real_bank)"

text \<open>
  Lines 954-964: the bank-blended output \<^verbatim>\<open>n_uc\<close>, the adjusted output \<^verbatim>\<open>n_c\<close>
  and their blend.
\<close>

definition attn_read_output ::
  "('t::real_vector) torch \<Rightarrow> 't BasicTransformerBlock \<Rightarrow> 't \<Rightarrow> 't \<Rightarrow> 't option
     \<Rightarrow> nat list \<Rightarrow> real \<Rightarrow> 't list \<Rightarrow> 't"
where
  "attn_read_output torch self n context_attn1 value_attn1 uc_idx_mask style_fidelity
       real_bank =
     (let n_uc = attn1 self n (Some (cat_dim1 torch ([context_attn1] @ real_bank)))
                   (case value_attn1 of
                      None \<Rightarrow> None
                    | Some v \<Rightarrow> Some (cat_dim1 torch ([v] @ real_bank)));
          n_c = n_uc;
          n_c = (if length uc_idx_mask > 0 \<and> \<not> isclose style_fidelity 0
                 then index_put_rows torch n_c uc_idx_mask
                        (attn1 self (index_rows torch n uc_idx_mask)
                           (Some (index_rows torch context_attn1 uc_idx_mask))
                           (case value_attn1 of
                              None \<Rightarrow> None
                            | Some v \<Rightarrow> Some (index_rows torch v uc_idx_mask)))
                 else n_c)
      in fidelity_blend style_fidelity n_c n_uc)"

text \<open>
  Lines 852-876 and 936-967: from the post-norm tensor \<open>n\<close> to the output of the first
  attention, with the holder as it is left behind.
\<close>

definition reference_attn1 ::
  "('t::real_vector) torch \<Rightarrow> 't BasicTransformerBlock
     \<Rightarrow> 't InjectionBasicTransformerBlockHolder \<Rightarrow> 't \<Rightarrow> 't option
     \<Rightarrow> 't transformer_options
     \<Rightarrow> (py_error + 't) \<times> 't InjectionBasicTransformerBlockHolder"
where
  "reference_attn1 torch self holder n context_attn1 topts =
     (let value_attn1 = None;
          uc_idx_mask = (case ref_uncond_idxs topts of None \<Rightarrow> [] | Some l \<Rightarrow> l);
          ref_write_cns =
            (case ref_write_attn_control_list topts of None \<Rightarrow> [] | Some l \<Rightarrow> l);
          ref_read_cns =
            (case ref_read_attn_control_list topts of None \<Rightarrow> [] | Some l \<Rightarrow> l);
          written = attn_write holder n ref_write_cns;
          bs = fst written;
          ignore_contextref_read = snd written;
          holder1 = holder\<lparr>bank_styles := bs\<rparr>
      in
      if length ref_read_cns > 0 \<and> length (get_bank bs ignore_contextref_read) > 0 then
        (let context_attn1 = (case context_attn1 of None \<Rightarrow> n | Some c \<Rightarrow> c) in
         case get_avg_style_fidelity bs ignore_contextref_read of
           Inl e \<Rightarrow> (Inl e, holder1)
         | Inr style_fidelity \<Rightarrow>
             (case attn_read_entries torch (is_middle holder) ref_read_cns n context_attn1 0
                     (enumerate 0 (get_cn_idxs bs ignore_contextref_read))
                     (get_bank bs ignore_contextref_read) of
                Inl e \<Rightarrow> (Inl e, holder1)
              | Inr real_bank \<Rightarrow>
                  (Inr (attn_read_output torch self n context_attn1 value_attn1 uc_idx_mask
                          style_fidelity real_bank),
                   holder1\<lparr>bank_styles := attn_bank_clean_ref bs\<rparr>)))
      else (Inr (attn1 self n context_attn1 value_attn1), holder1))"


subsection \<open>Normalization injection\<close>

text \<open>WRITE (lines 1045-1058); the state is the bank and \<^verbatim>\<open>ignore_contextref_read\<close>.\<close>

fun gn_write_loop ::
  "'t torch \<Rightarrow> real \<Rightarrow> 't \<Rightarrow> 't ReferenceAdvanced list
     \<Rightarrow> 't BankStylesTimestepEmbedSequential \<times> bool
     \<Rightarrow> 't BankStylesTimestepEmbedSequential \<times> bool"
where
  "gn_write_loop torch holder_gn_weight x [] st = st"
| "gn_write_loop torch holder_gn_weight x (refcn # rest) (bs, ignore_contextref_read) =
     (if adain_ref_weight (ref_opts refcn) > holder_gn_weight then
        (let var = fst (var_mean torch x);
             mean = snd (var_mean torch x)
         in
         if is_context_ref refcn then
           gn_write_loop torch holder_gn_weight x rest
             (bs\<lparr>c_var_bank := c_var_bank bs @ [var],
                 c_mean_bank := c_mean_bank bs @ [mean],
                 gn_c_style_cfgs :=
                   gn_c_style_cfgs bs @ [adain_style_fidelity (ref_opts refcn)],
                 gn_c_cn_idx := gn_c_cn_idx bs @ [order refcn]\<rparr>,
              True)
         else
           gn_write_loop torch holder_gn_weight x rest
             (bs\<lparr>var_bank := var_bank bs @ [var],
                 mean_bank := mean_bank bs @ [mean],
                 gn_style_cfgs := gn_style_cfgs bs @ [adain_style_fidelity (ref_opts refcn)],
                 gn_cn_idx := gn_cn_idx bs @ [order refcn]\<rparr>,
              ignore_contextref_read))
      else gn_write_loop torch holder_gn_weight x rest (bs, ignore_contextref_read))"

text \<open>Lines 1081-1085: what one bank entry adds to \<^verbatim>\<open>y_uc\<close>.\<close>

definition adain_sub_y_uc ::
  "('t::real_vector) torch \<Rightarrow> 't ReferenceAdvanced \<Rightarrow> 't \<Rightarrow> 't \<Rightarrow> 't \<Rightarrow> 't \<Rightarrow> 't \<Rightarrow> 't"
where
  "adain_sub_y_uc torch unit x mean std var_acc mean_acc =
     (let std_acc = std_of_var torch var_acc;
          sub_y_uc = t_mul torch (t_div torch (x - mean) std) std_acc + mean_acc
      in if any_adain_strength_to_apply unit
         then blend_strength torch (get_effective_adain_mask_or_float torch unit x)
                sub_y_uc x
         else sub_y_uc)"

text \<open>Lines 1090-1093: the adjusted output \<^verbatim>\<open>y_c\<close> and the blend.\<close>

definition adain_read_output ::
  "('t::real_vector) torch \<Rightarrow> 't \<Rightarrow> nat list \<Rightarrow> real \<Rightarrow> 't \<Rightarrow> 't"
where
  "adain_read_output torch x uc_idx_mask style_fidelity y_uc =
     (let y_c = y_uc;
          y_c = (if length uc_idx_mask > 0 \<and> \<not> isclose style_fidelity 0
                 then index_put_rows torch y_c uc_idx_mask (index_rows torch x uc_idx_mask)
                 else y_c)
      in fidelity_blend style_fidelity y_c y_uc)"

text \<open>
  The loop of READ (lines 1071-1086). Its state is \<^verbatim>\<open>cn_idx\<close>, \<^verbatim>\<open>y_uc\<close> and
  \<^verbatim>\<open>style_fidelity\<close>, which is unbound (\<open>None\<close>) until the first entry.
\<close>

fun adain_read_entries ::
  "('t::real_vector) torch \<Rightarrow> 't ReferenceAdvanced list \<Rightarrow> 't \<Rightarrow> 't \<Rightarrow> 't
     \<Rightarrow> real list \<Rightarrow> 't list \<Rightarrow> 't list \<Rightarrow> nat \<times> 't \<times> real option
     \<Rightarrow> (nat \<times> int) list \<Rightarrow> py_error + nat \<times> 't \<times> real option"
where
  "adain_read_entries torch ref_read_cns x mean std real_style_cfgs real_var_bank
       real_mean_bank st [] = Inr st"
| "adain_read_entries torch ref_read_cns x mean std real_style_cfgs real_var_bank
       real_mean_bank (cn_idx0, y_uc, style_fidelity) ((idx, entry_order) # rest) =
     (case matched_cn_idx ref_read_cns entry_order cn_idx0 of
        Inl e \<Rightarrow> Inl e
      | Inr cn_idx1 \<Rightarrow>
          if idx \<ge> length real_style_cfgs \<or> idx \<ge> length real_var_bank
             \<or> idx \<ge> length real_mean_bank
          then Inl IndexError
          else
            (let style_fidelity = real_style_cfgs ! idx;
                 var_acc = real_var_bank ! idx;
                 mean_acc = real_mean_bank ! idx;
                 sub_y_uc = adain_sub_y_uc torch (ref_read_cns ! cn_idx1) x mean std
                              var_acc mean_acc
             in adain_read_entries torch ref_read_cns x mean std real_style_cfgs
                  real_var_bank real_mean_bank
                  (cn_idx1, y_uc + sub_y_uc, Some style_fidelity) rest))"

text \<open>
  \<^verbatim>\<open>forward_timestep_embed_ref_inject\<close> (lines 1028-1098). \<open>ts\<close> is the holder of the
  module, \<open>None\<close> for a module without one; \<open>x\<close> is what the replaced dispatch function
  returned for the module. \<^verbatim>\<open>torch.zeros_like(x)\<close> is the zero vector and the casts
  \<^verbatim>\<open>.to(dtype)\<close> are the identity.
\<close>

definition forward_timestep_embed_ref_inject ::
  "('t::real_vector) torch \<Rightarrow> 't InjectionTimestepEmbedSequentialHolder option \<Rightarrow> 't
     \<Rightarrow> 't transformer_options
     \<Rightarrow> (py_error + 't) \<times> 't InjectionTimestepEmbedSequentialHolder option"
where
  "forward_timestep_embed_ref_inject torch ts x topts =
     (case ts of
        None \<Rightarrow> (Inr x, None)
      | Some holder \<Rightarrow>
          let uc_idx_mask = (case ref_uncond_idxs topts of None \<Rightarrow> [] | Some l \<Rightarrow> l);
              ref_write_cns =
                (case ref_write_adain_control_list topts of None \<Rightarrow> [] | Some l \<Rightarrow> l);
              ref_read_cns =
                (case ref_read_adain_control_list topts of None \<Rightarrow> [] | Some l \<Rightarrow> l);
              written = gn_write_loop torch (gn_weight holder) x ref_write_cns
                          (gn_bank_styles holder, False);
              bs = fst written;
              ignore_contextref_read = snd written
          in
          if length ref_read_cns > 0 then
            (if length (get_var_bank bs ignore_contextref_read) > 0 then
               (let var = fst (var_mean torch x);
                    mean = snd (var_mean torch x);
                    std = std_of_var torch var;
                    y_uc = 0;
                    cn_idx0 = 0;
                    real_style_cfgs = get_style_cfgs bs ignore_contextref_read;
                    real_var_bank = get_var_bank bs ignore_contextref_read;
                    real_mean_bank = get_mean_bank bs ignore_contextref_read
                in
                case adain_read_entries torch ref_read_cns x mean std real_style_cfgs
                       real_var_bank real_mean_bank (cn_idx0, y_uc, None)
                       (enumerate 0 (get_cn_idx bs ignore_contextref_read)) of
                  Inl e \<Rightarrow> (Inl e, Some (holder\<lparr>gn_bank_styles := bs\<rparr>))
                | Inr (cn_idx1, y_uc, style_fidelity_opt) \<Rightarrow>
                    let y_uc = (if length (gn_cn_idx bs) > 1
                                then y_uc /\<^sub>R real (length (gn_cn_idx bs))
                                else y_uc)
                    in
                    (case style_fidelity_opt of
                       None \<Rightarrow> (Inl UnboundLocalError, Some (holder\<lparr>gn_bank_styles := bs\<rparr>))
                     | Some style_fidelity \<Rightarrow>
                         (Inr (adain_read_output torch x uc_idx_mask style_fidelity y_uc),
                          Some (holder\<lparr>gn_bank_styles := gn_bank_clean_ref bs\<rparr>))))
             else (Inr x, Some (holder\<lparr>gn_bank_styles := gn_bank_clean_ref bs\<rparr>)))
          else (Inr x, Some (holder\<lparr>gn_bank_styles := bs\<rparr>)))"

section \<open>A network of patched transformer blocks\<close>



definition set_contextref_attn_state :: "MachineState \<Rightarrow> 't world \<Rightarrow> 't world" where
  "set_contextref_attn_state st w =
     w\<lparr>kwargs_transformer_options :=
         (kwargs_transformer_options w)\<lparr>contextref_attn_machine_state := Some st\<rparr>\<rparr>"


section \<open>Predicates and example data for the statements\<close>

subsection \<open>Empty own-origin banks\<close>

definition attn_own_empty :: "'t InjectionBasicTransformerBlockHolder option \<Rightarrow> bool" where
  "attn_own_empty m =
     (case m of
        None \<Rightarrow> True
      | Some h \<Rightarrow> bank (bank_styles h) = [] \<and> style_cfgs (bank_styles h) = []
                  \<and> cn_idx (bank_styles h) = [])"

definition gn_own_empty :: "'t InjectionTimestepEmbedSequentialHolder option \<Rightarrow> bool" where
  "gn_own_empty m =
     (case m of
        None \<Rightarrow> True
      | Some h \<Rightarrow> var_bank (gn_bank_styles h) = [] \<and> mean_bank (gn_bank_styles h) = []
                  \<and> gn_style_cfgs (gn_bank_styles h) = [] \<and> gn_cn_idx (gn_bank_styles h) = [])"

definition own_banks_empty :: "'t world \<Rightarrow> bool" where
  "own_banks_empty w =
     (list_all attn_own_empty (attn_modules (reference_injections w))
      \<and> list_all gn_own_empty (gn_modules (reference_injections w)))"

subsection \<open>should_run as the specification words it\<close>

text \<open>
  The specification's reading of \<^verbatim>\<open>should_run\<close>: a channel is active when neither
  its weight nor its strength is within a tolerance \<open>tol\<close> of zero. It is compared with
  \<open>should_run\<close> below.
\<close>

definition channel_active_within :: "real \<Rightarrow> real \<Rightarrow> real \<Rightarrow> bool" where
  "channel_active_within tol ref_weight channel_strength =
     (\<not> \<bar>ref_weight\<bar> \<le> tol \<and> \<not> \<bar>channel_strength\<bar> \<le> tol)"

definition should_run_within :: "real \<Rightarrow> 't ReferenceAdvanced \<Rightarrow> bool" where
  "should_run_within tol self =
     (base_should_run self
      \<and> ((is_attn (reference_type (ref_opts self))
           \<and> channel_active_within tol (attn_ref_weight (ref_opts self))
                (attn_strength (ref_opts self)))
          \<or> (is_adain (reference_type (ref_opts self))
              \<and> channel_active_within tol (adain_ref_weight (ref_opts self))
                   (adain_strength (ref_opts self)))))"

subsection \<open>Blended entries and ContextRef entries\<close>




definition below_weight ::
  "'t ReferenceAdvanced \<Rightarrow> 't InjectionBasicTransformerBlockHolder option \<Rightarrow> bool"
where
  "below_weight cref m =
     (case m of None \<Rightarrow> False | Some h \<Rightarrow> attn_weight h < attn_ref_weight (ref_opts cref))"



subsection \<open>The two branches of a READ\<close>

text \<open>
  Names for the two tensors that the attention READ blends (lines 954-963):
  \<open>attn_n_uc\<close> is \<^verbatim>\<open>n_uc\<close>, the attention over the context extended by the bank,
  and \<open>attn_uc_rows\<close> is the right-hand side of \<^verbatim>\<open>n_c[uc_idx_mask] = ...\<close>, the
  attention of the unconditional rows alone, without the bank. \<open>assigns_rows\<close> says
  what the assignment \<^verbatim>\<open>t[idxs] = v\<close> does to a tensor, as far as the statements
  need it: afterwards the rows \<open>idxs\<close> are \<open>v\<close>, and the rows \<open>others\<close> are what they
  were.
\<close>

definition attn_n_uc ::
  "'t torch \<Rightarrow> 't BasicTransformerBlock \<Rightarrow> 't \<Rightarrow> 't \<Rightarrow> 't option \<Rightarrow> 't list \<Rightarrow> 't"
where
  "attn_n_uc torch self n context_attn1 value_attn1 real_bank =
     attn1 self n (Some (cat_dim1 torch ([context_attn1] @ real_bank)))
       (case value_attn1 of
          None \<Rightarrow> None
        | Some v \<Rightarrow> Some (cat_dim1 torch ([v] @ real_bank)))"

definition attn_uc_rows ::
  "'t torch \<Rightarrow> 't BasicTransformerBlock \<Rightarrow> 't \<Rightarrow> 't \<Rightarrow> 't option \<Rightarrow> nat list \<Rightarrow> 't"
where
  "attn_uc_rows torch self n context_attn1 value_attn1 uc_idx_mask =
     attn1 self (index_rows torch n uc_idx_mask)
       (Some (index_rows torch context_attn1 uc_idx_mask))
       (case value_attn1 of
          None \<Rightarrow> None
        | Some v \<Rightarrow> Some (index_rows torch v uc_idx_mask))"

definition assigns_rows :: "'t torch \<Rightarrow> nat list \<Rightarrow> nat list \<Rightarrow> 't \<Rightarrow> bool" where
  "assigns_rows torch idxs others v =
     (\<forall>t. index_rows torch (index_put_rows torch t idxs v) idxs = v
          \<and> index_rows torch (index_put_rows torch t idxs v) others = index_rows torch t others)"

subsection \<open>Example data\<close>

text \<open>
  Concrete units, dictionaries, states and wrapped networks on which the statements
  are evaluated; tensors are real numbers there.
\<close>

definition ex_base :: "real ControlBase" where
  "ex_base = \<lparr> strength = 1, current_timestep_keyframe_strength = Some 1,
               base_should_run = True, cond_hint = Some 7 \<rparr>"

definition ex_unit :: "ReferenceType \<Rightarrow> int \<Rightarrow> bool \<Rightarrow> real ReferenceAdvanced" where
  "ex_unit rtype ord ctx =
     (ReferenceAdvanced_init (ReferenceOptions_init rtype (1 / 2) (1 / 2) 1 1 1 1 False) ex_base)
       \<lparr>order := ord, is_context_ref := ctx\<rparr>"

definition ex_options :: "real transformer_options" where
  "ex_options =
     \<lparr> cond_or_uncond = Some [0, 1],
       ref_control_list_all = None,
       contextref_control_list_all = None,
       contextref_attn_machine_state = None,
       contextref_adain_machine_state = None,
       contextref_options_class = False,
       ref_read_attn_control_list = None,
       ref_write_attn_control_list = None,
       ref_read_adain_control_list = None,
       ref_write_adain_control_list = None,
       ref_uncond_idxs = None,
       ref_cond_idxs = None \<rparr>"

definition ex_world :: "real transformer_options \<Rightarrow> real world" where
  "ex_world topts =
     \<lparr> reference_injections =
         \<lparr> attn_modules = [Some \<lparr> attn_weight = 0, is_middle = False,
                                   bank_styles = attn_bank_init \<rparr>],
           gn_modules = [Some \<lparr> gn_weight = 0, gn_is_middle = False, is_input = True,
                                 is_output = False, gn_bank_styles = gn_bank_init \<rparr>] \<rparr>,
       forward_timestep_embed = comfy_forward_timestep_embed,
       kwargs_transformer_options = topts,
       forward_calls = [] \<rparr>"

definition ex_plain_forward :: "(real, unit) orig_forward" where
  "ex_plain_forward x ctrl w = (Inr x, w)"

definition ex_leaky_forward :: "(real, unit) orig_forward" where
  "ex_leaky_forward x ctrl w =
     (Inl (Raised ''interrupted''),
      w\<lparr>reference_injections :=
          (reference_injections w)
            \<lparr>attn_modules :=
               map (map_option (\<lambda>h. h\<lparr>bank_styles :=
                                        (bank_styles h)\<lparr>bank := bank (bank_styles h) @ [x],
                                                        style_cfgs := style_cfgs (bank_styles h) @ [1],
                                                        cn_idx := cn_idx (bank_styles h) @ [0]\<rparr>\<rparr>))
                 (attn_modules (reference_injections w))\<rparr>\<rparr>)"

definition ex_tiny_weight_unit :: "real ReferenceAdvanced" where
  "ex_tiny_weight_unit =
     ReferenceAdvanced_init (ReferenceOptions_init ATTN (1 / 2) (1 / 2) (1 / 10 ^ 12) 1 1 1 False)
       ex_base"

definition ex_zero_weight_unit :: "real ReferenceAdvanced" where
  "ex_zero_weight_unit =
     ReferenceAdvanced_init (ReferenceOptions_init ATTN (1 / 2) (1 / 2) 0 1 1 1 False) ex_base"

definition ex_context_adain_world :: "MachineState \<Rightarrow> real world" where
  "ex_context_adain_world st =
     ex_world (ex_options\<lparr>contextref_control_list_all := Some [ex_unit ADAIN (- 1) True],
                           contextref_attn_machine_state := Some st,
                           contextref_adain_machine_state := Some st\<rparr>)"

definition ex_torch :: "real torch" where
  "ex_torch =
     \<lparr> cat_dim1 = sum_list,
       index_rows = (\<lambda>t idxs. t),
       index_put_rows = (\<lambda>t idxs v. v),
       t_mul = (\<lambda>a b. a * b),
       t_div = (\<lambda>a b. a / b),
       one_minus = (\<lambda>m. 1 - m),
       var_mean = (\<lambda>x. (x * x, x)),
       std_of_var = (\<lambda>v. v),
       shape2 = (\<lambda>t. 320),
       attn_real_mask = (\<lambda>u x d. 1),
       adain_real_mask = (\<lambda>u x. 1) \<rparr>"


definition ex_unit_fid :: "ReferenceType \<Rightarrow> int \<Rightarrow> bool \<Rightarrow> real \<Rightarrow> real ReferenceAdvanced" where
  "ex_unit_fid rtype ord ctx fid =
     (ReferenceAdvanced_init (ReferenceOptions_init rtype fid fid 1 1 1 1 False) ex_base)
       \<lparr>order := ord, is_context_ref := ctx\<rparr>"

definition ex_attn_holder :: "real InjectionBasicTransformerBlockHolder" where
  "ex_attn_holder = \<lparr> attn_weight = 0, is_middle = False, bank_styles = attn_bank_init \<rparr>"

definition ex_gn_holder :: "real InjectionTimestepEmbedSequentialHolder" where
  "ex_gn_holder = \<lparr> gn_weight = 0, gn_is_middle = False, is_input = True,
                     is_output = False, gn_bank_styles = gn_bank_init \<rparr>"











text \<open>
  A tensor type with two rows, for a batch of one conditional and one unconditional
  sample: \<open>Rows2 a b\<close> has row 0 equal to \<open>a\<close> and row 1 equal to \<open>b\<close>, and sums and
  products with a float are taken row by row. In \<open>ex_rows_torch\<close>, selecting rows
  keeps the selected rows in their place (the other rows are zero), and assigning rows
  replaces exactly the rows named.
\<close>

datatype rows2 = Rows2 (row0: real) (row1: real)

instantiation rows2 :: real_vector
begin

definition zero_rows2 :: rows2 where
  "zero_rows2 = Rows2 0 0"

definition plus_rows2 :: "rows2 \<Rightarrow> rows2 \<Rightarrow> rows2" where
  "plus_rows2 a b = Rows2 (row0 a + row0 b) (row1 a + row1 b)"

definition uminus_rows2 :: "rows2 \<Rightarrow> rows2" where
  "uminus_rows2 a = Rows2 (- row0 a) (- row1 a)"

definition minus_rows2 :: "rows2 \<Rightarrow> rows2 \<Rightarrow> rows2" where
  "minus_rows2 a b = Rows2 (row0 a - row0 b) (row1 a - row1 b)"

definition scaleR_rows2 :: "real \<Rightarrow> rows2 \<Rightarrow> rows2" where
  "scaleR_rows2 r a = Rows2 (r * row0 a) (r * row1 a)"

instance
  by standard
     (simp_all add: zero_rows2_def plus_rows2_def uminus_rows2_def minus_rows2_def
        scaleR_rows2_def algebra_simps)

end

definition rows_map2 :: "(real \<Rightarrow> real \<Rightarrow> real) \<Rightarrow> rows2 \<Rightarrow> rows2 \<Rightarrow> rows2" where
  "rows_map2 f a b = Rows2 (f (row0 a) (row0 b)) (f (row1 a) (row1 b))"

definition ex_rows_torch :: "rows2 torch" where
  "ex_rows_torch =
     \<lparr> cat_dim1 = sum_list,
       index_rows = (\<lambda>t idxs. Rows2 (if 0 \<in> set idxs then row0 t else 0)
                                    (if 1 \<in> set idxs then row1 t else 0)),
       index_put_rows = (\<lambda>t idxs v. Rows2 (if 0 \<in> set idxs then row0 v else row0 t)
                                          (if 1 \<in> set idxs then row1 v else row1 t)),
       t_mul = rows_map2 (\<lambda>a b. a * b),
       t_div = rows_map2 (\<lambda>a b. a / b),
       one_minus = (\<lambda>m. Rows2 (1 - row0 m) (1 - row1 m)),
       var_mean = (\<lambda>x. (rows_map2 (\<lambda>a b. a * b) x x, x)),
       std_of_var = (\<lambda>v. v),
       shape2 = (\<lambda>t. 320),
       attn_real_mask = (\<lambda>u x d. Rows2 1 1),
       adain_real_mask = (\<lambda>u x. Rows2 1 1) \<rparr>"

definition ex_rows_block :: "rows2 BasicTransformerBlock" where
  "ex_rows_block =
     \<lparr> before_norm1 = (\<lambda>x. x),
       norm1 = (\<lambda>x. x),
       disable_self_attn = False,
       attn1 = (\<lambda>n c v. n + 10 *\<^sub>R (case c of None \<Rightarrow> 0 | Some k \<Rightarrow> k)),
       after_attn1 = (\<lambda>x n c. x + n) \<rparr>"

definition ex_rows_base :: "rows2 ControlBase" where
  "ex_rows_base = \<lparr> strength = 1, current_timestep_keyframe_strength = Some 1,
                    base_should_run = True, cond_hint = Some (Rows2 7 7) \<rparr>"

definition ex_rows_unit :: "ReferenceType \<Rightarrow> int \<Rightarrow> bool \<Rightarrow> real \<Rightarrow> rows2 ReferenceAdvanced" where
  "ex_rows_unit rtype ord ctx fid =
     (ReferenceAdvanced_init (ReferenceOptions_init rtype fid fid 1 1 1 1 False) ex_rows_base)
       \<lparr>order := ord, is_context_ref := ctx\<rparr>"

definition ex_rows_options :: "rows2 transformer_options" where
  "ex_rows_options =
     \<lparr> cond_or_uncond = Some [0, 1],
       ref_control_list_all = None,
       contextref_control_list_all = None,
       contextref_attn_machine_state = None,
       contextref_adain_machine_state = None,
       contextref_options_class = False,
       ref_read_attn_control_list = None,
       ref_write_attn_control_list = None,
       ref_read_adain_control_list = None,
       ref_write_adain_control_list = None,
       ref_uncond_idxs = None,
       ref_cond_idxs = None \<rparr>"

definition ex_rows_read :: "real \<Rightarrow> nat list \<Rightarrow> rows2 transformer_options" where
  "ex_rows_read fid uncond_idxs =
     ex_rows_options\<lparr>ref_read_attn_control_list := Some [ex_rows_unit ATTN_ADAIN 3 False fid],
                      ref_read_adain_control_list := Some [ex_rows_unit ATTN_ADAIN 3 False fid],
                      ref_uncond_idxs := Some uncond_idxs\<rparr>"

definition ex_rows_attn_written ::
  "rows2 \<Rightarrow> real \<Rightarrow> rows2 InjectionBasicTransformerBlockHolder"
where
  "ex_rows_attn_written entry fid =
     \<lparr> attn_weight = 0, is_middle = False,
       bank_styles =
         fst (attn_write \<lparr> attn_weight = 0, is_middle = False, bank_styles = attn_bank_init \<rparr>
                entry [ex_rows_unit ATTN_ADAIN 3 False fid]) \<rparr>"

definition ex_rows_gn_written ::
  "rows2 \<Rightarrow> real \<Rightarrow> rows2 InjectionTimestepEmbedSequentialHolder"
where
  "ex_rows_gn_written entry fid =
     \<lparr> gn_weight = 0, gn_is_middle = False, is_input = True, is_output = False,
       gn_bank_styles =
         fst (gn_write_loop ex_rows_torch 0 entry [ex_rows_unit ATTN_ADAIN 3 False fid]
                (gn_bank_init, False)) \<rparr>"


section \<open>Facts\<close>

lemma isclose_zero_iff: "isclose v 0 \<longleftrightarrow> v = 0"
  unfolding isclose_def rel_tol_def abs_tol_def
  by (auto simp: max_def abs_if split: if_splits)

text \<open>
  C10. For every \<^verbatim>\<open>transformer_options\<close> dictionary,
  \<^verbatim>\<open>handle_context_ref_setup\<close> binds both ContextRef machine-state keys (ATTN and
  ADAIN) to OFF and binds the ContextRef control list to a one-element list, which it
  also returns. The single unit has order -1, reference type ATTN, attention fidelity,
  weight and strength 1.0, adain fidelity and weight 0.0, and its
  \<^verbatim>\<open>is_context_ref\<close> flag is still the constructor's \<open>False\<close>.
\<close>

theorem handle_context_ref_setup_result:
  "(case handle_context_ref_setup base topts of
      (context_ref_list, topts') \<Rightarrow>
        contextref_attn_machine_state topts' = Some OFF
        \<and> contextref_adain_machine_state topts' = Some OFF
        \<and> contextref_control_list_all topts' = Some context_ref_list
        \<and> length context_ref_list = 1
        \<and> order (hd context_ref_list) = - 1
        \<and> reference_type (ref_opts (hd context_ref_list)) = ATTN
        \<and> attn_style_fidelity (ref_opts (hd context_ref_list)) = 1
        \<and> attn_ref_weight (ref_opts (hd context_ref_list)) = 1
        \<and> attn_strength (ref_opts (hd context_ref_list)) = 1
        \<and> adain_style_fidelity (ref_opts (hd context_ref_list)) = 0
        \<and> adain_ref_weight (ref_opts (hd context_ref_list)) = 0
        \<and> is_context_ref (hd context_ref_list) = False
        \<and> is_context_ref (hd context_ref_list) = is_context_ref (ReferenceAdvanced_init opts0 base))"
  by (simp add: handle_context_ref_setup_def ReferenceAdvanced_init_def
      ReferenceOptions_init_def Let_def)


subsection \<open>ref_noise_latents\<close>

lemma map_length_randn_like: "map length (randn_like randn latents) = map length latents"
  by (auto simp: randn_like_def intro!: nth_equalityI)

lemma mul_rows_same:
  "length cs = length t \<Longrightarrow> mul_rows cs t = Inr (map2 (\<lambda>c row. map (\<lambda>v. c * v) row) cs t)"
  by (simp add: mul_rows_def broadcast0_def)

lemma add_rows_same:
  assumes "map length a = map length b"
  shows "add_rows a b = Inr (map2 (\<lambda>r1 r2. map2 (+) r1 r2) a b)"
proof -
  have l: "length a = length b" using assms map_eq_imp_length_eq by blast
  have "list_all (\<lambda>(r1, r2). length r1 = length r2) (zip a b)"
    using assms l by (induction a b rule: list_induct2') auto
  then show ?thesis using l by (simp add: add_rows_def broadcast0_def)
qed

lemma map2_add_maps:
  "map2 (+) (map f l) (map g n) = map2 (\<lambda>x z. f x + g (z::real)) l (n::real list)"
  by (simp add: zip_map1 zip_map2 split_def comp_def)

lemma ref_noise_latents_same_shape:
  assumes "length sigma = length latents" and "map length noise = map length latents"
  shows "ref_noise_latents randn latents sigma (Some noise)
         = Inr (map (\<lambda>(s, l, n). noised_row s l n) (zip sigma (zip latents noise)))"
proof -
  have ln: "length noise = length latents" using assms(2) map_eq_imp_length_eq by blast
  have rows: "\<And>i. i < length latents \<Longrightarrow> length (noise ! i) = length (latents ! i)"
    using assms(2) ln by (metis nth_map)
  let ?a = "map2 (\<lambda>c row. map (\<lambda>v. c * v) row) (map sqrt (map (\<lambda>s. 1 / ((s * s) + 1)) sigma)) latents"
  let ?b = "map2 (\<lambda>c row. map (\<lambda>v. c * v) row)
              (map (\<lambda>a. sqrt (1 - a)) (map (\<lambda>s. 1 / ((s * s) + 1)) sigma)) noise"
  have shape: "map length ?a = map length ?b"
    using assms(1) ln rows by (auto intro!: nth_equalityI)
  have sum: "map2 (\<lambda>r1 r2. map2 (+) r1 r2) ?a ?b
             = map (\<lambda>(s, l, n). noised_row s l n) (zip sigma (zip latents noise))"
    using assms(1) ln
    by (auto intro!: nth_equalityI simp: noised_row_def power2_eq_square map2_add_maps)
  show ?thesis
    using assms(1) ln add_rows_same[OF shape] sum
    by (simp add: ref_noise_latents_def Let_def mul_rows_same)
qed

lemma ref_noise_latents_None:
  "ref_noise_latents randn latents sigma None
   = ref_noise_latents randn latents sigma (Some (randn_like randn latents))"
  by (simp add: ref_noise_latents_def)

lemma mul_rows_const:
  assumes "list_all (\<lambda>c. c = k) cs" and "length cs = length t \<or> length cs = 1"
  shows "mul_rows cs t = Inr (map (map (\<lambda>v. k * v)) t)"
proof (cases "length cs = length t")
  case True
  have "\<And>i. i < length cs \<Longrightarrow> cs ! i = k" using assms(1) by (simp add: list_all_length)
  then show ?thesis using True
    by (auto simp: mul_rows_def broadcast0_def intro!: nth_equalityI)
next
  case False
  then have l1: "length cs = 1" using assms(2) by simp
  then obtain c where cs: "cs = [c]" by (cases cs) auto
  then have "c = k" using assms(1) by simp
  then show ?thesis using False cs by (simp add: mul_rows_def broadcast0_def)
qed

lemma add_rows_zero:
  assumes "map length n = map length l"
  shows "add_rows (map (map (\<lambda>v. 1 * v)) l) (map (map (\<lambda>v. 0 * v)) n) = Inr (l :: real list list)"
proof -
  have ln: "length n = length l" using assms map_eq_imp_length_eq by blast
  have rows: "\<And>i. i < length l \<Longrightarrow> length (n ! i) = length (l ! i)"
    using assms ln by (metis nth_map)
  have shape: "map length (map (map (\<lambda>v. 1 * v)) l) = map length (map (map (\<lambda>v. 0 * v)) n)"
    using ln rows by (auto intro!: nth_equalityI)
  show ?thesis
    unfolding add_rows_same[OF shape]
    using ln rows by (auto intro!: nth_equalityI)
qed

lemma ref_noise_latents_sigma_zero:
  assumes "list_all (\<lambda>s. s = 0) sigma"
    and "length sigma = length latents \<or> length sigma = 1"
    and "map length noise = map length latents"
  shows "ref_noise_latents randn latents sigma (Some noise) = Inr latents"
proof -
  have ln: "length noise = length latents" using assms(3) map_eq_imp_length_eq by blast
  have a: "list_all (\<lambda>c. c = 1) (map sqrt (map (\<lambda>s. 1 / ((s * s) + 1)) sigma))"
    using assms(1) by (auto simp: list_all_iff)
  have b: "list_all (\<lambda>c. c = 0) (map (\<lambda>a. sqrt (1 - a)) (map (\<lambda>s. 1 / ((s * s) + 1)) sigma))"
    using assms(1) by (auto simp: list_all_iff)
  have ma: "mul_rows (map sqrt (map (\<lambda>s. 1 / ((s * s) + 1)) sigma)) latents
            = Inr (map (map (\<lambda>v. 1 * v)) latents)"
    using mul_rows_const[OF a] assms(2) by simp
  have mb: "mul_rows (map (\<lambda>a. sqrt (1 - a)) (map (\<lambda>s. 1 / ((s * s) + 1)) sigma)) noise
            = Inr (map (map (\<lambda>v. 0 * v)) noise)"
    using mul_rows_const[OF b] assms(2) ln by simp
  show ?thesis
    unfolding ref_noise_latents_def Let_def
    by (simp only: option.case ma mb sum.case add_rows_zero[OF assms(3)])
qed

text \<open>
  C7. \<^verbatim>\<open>ref_noise_latents\<close> computes \<open>\<alpha> = 1 / (\<sigma>\<^sup>2 + 1)\<close> per batch entry and
  returns \<open>sqrt \<alpha> * latents + sqrt (1 - \<alpha>) * noise\<close>, where the noise, when none is
  supplied, is drawn with the shape of \<open>latents\<close>; at \<open>\<sigma> = 0\<close> the result is
  \<open>latents\<close> itself. The arithmetic is that of the real numbers, and the distribution
  of the drawn noise is not part of the statement.
\<close>

theorem ref_noise_latents_formula:
  assumes "map length noise = map length latents"
    and "length sigma = length latents \<or> length sigma = 1"
  shows "map length (randn_like randn latents) = map length latents
     \<and> (length sigma = length latents \<longrightarrow>
          ref_noise_latents randn latents sigma (Some noise)
            = Inr (map (\<lambda>(s, l, n). noised_row s l n) (zip sigma (zip latents noise)))
          \<and> ref_noise_latents randn latents sigma None
            = Inr (map (\<lambda>(s, l, n). noised_row s l n)
                     (zip sigma (zip latents (randn_like randn latents)))))
     \<and> (list_all (\<lambda>s. s = 0) sigma \<longrightarrow>
          ref_noise_latents randn latents sigma None = Inr latents
          \<and> ref_noise_latents randn latents sigma (Some noise) = Inr latents)"
  using assms ref_noise_latents_same_shape[of sigma latents noise randn]
    ref_noise_latents_same_shape[of sigma latents "randn_like randn latents" randn]
    ref_noise_latents_sigma_zero[of sigma latents noise randn]
    ref_noise_latents_sigma_zero[of sigma latents "randn_like randn latents" randn]
  by (simp add: map_length_randn_like ref_noise_latents_None)

theorem ref_noise_latents_formula_witness:
  "map length [[5, 6], [7, 8 :: real]] = map length [[1, 2], [3, 4 :: real]]
   \<and> length [0, 0 :: real] = length [[1, 2], [3, 4 :: real]]
   \<and> list_all (\<lambda>s. s = 0) [0, 0 :: real]
   \<and> ref_noise_latents (\<lambda>b j. 9) [[1, 2], [3, 4]] [0, 0] None = Inr [[1, 2], [3, 4]]
   \<and> ref_noise_latents (\<lambda>b j. 9) [[1, 2], [3, 4]] [0, 0] (Some [[5, 6], [7, 8]])
       = Inr [[1, 2], [3, 4]]"
proof -
  have h1: "map length [[5, 6], [7, 8 :: real]] = map length [[1, 2], [3, 4 :: real]]"
    by simp
  have h2: "length [0, 0 :: real] = length [[1, 2], [3, 4 :: real]]
            \<or> length [0, 0 :: real] = 1"
    by simp
  have h3: "list_all (\<lambda>s. s = 0) [0, 0 :: real]" by simp
  from ref_noise_latents_formula[OF h1 h2, of "\<lambda>b j. 9"] h3
  have "ref_noise_latents (\<lambda>b j. 9) [[1, 2], [3, 4]] [0, 0] None = Inr [[1, 2], [3, 4]]
        \<and> ref_noise_latents (\<lambda>b j. 9) [[1, 2], [3, 4]] [0, 0] (Some [[5, 6], [7, 8]])
            = Inr [[1, 2], [3, 4]]"
    by blast
  then show ?thesis using h3 by simp
qed

subsection \<open>The forward interceptor\<close>

lemma attn_own_empty_clean: "attn_own_empty (map_option attn_holder_clean_ref m)"
  by (cases m) (simp_all add: attn_own_empty_def attn_holder_clean_ref_def attn_bank_clean_ref_def)

lemma gn_own_empty_clean: "gn_own_empty (map_option gn_holder_clean_ref m)"
  by (cases m) (simp_all add: gn_own_empty_def gn_holder_clean_ref_def gn_bank_clean_ref_def)

lemma own_banks_empty_clean:
  "own_banks_empty (w\<lparr>reference_injections := clean_ref_module_mem (reference_injections w)\<rparr>)"
  by (simp add: own_banks_empty_def clean_ref_module_mem_def list_all_iff
      attn_own_empty_clean gn_own_empty_clean)

lemma own_banks_empty_dispatch:
  "own_banks_empty (w\<lparr>forward_timestep_embed := d\<rparr>) = own_banks_empty w"
  by (simp add: own_banks_empty_def)

lemma own_banks_empty_finally: "own_banks_empty (snd (forward_inject_finally outcome))"
  by (cases outcome)
     (auto simp: forward_inject_finally_def Let_def own_banks_empty_clean
        own_banks_empty_dispatch split: option.splits)

text \<open>
  C2. Whenever at least one reference unit (RefCN or ContextRef) runs, the own-origin
  (RefCN) sub-bank of every patched attention and normalization module is empty after
  \<^verbatim>\<open>forward_inject_UNetModel\<close>, whatever the wrapped network did to the banks and
  whether the call returned or raised.
\<close>

theorem own_banks_empty_after_forward:
  assumes "running_ref_controlnets w \<noteq> [] \<or> running_context_controlnets w \<noteq> []"
  shows "own_banks_empty (snd (forward_inject_UNetModel x_shape0 fwd x ctrl w))"
  using assms
  by (auto simp: forward_inject_UNetModel_def Let_def own_banks_empty_finally)

lemma ex_unit_should_run: "should_run (ex_unit rtype ord ctx) = (rtype \<noteq> STYLE_ALIGN)"
  by (cases rtype)
     (simp_all add: should_run_def ex_unit_def ex_base_def ReferenceAdvanced_init_def
        ReferenceOptions_init_def is_attn_def is_adain_def LIST_ATTN_def LIST_ADAIN_def
        isclose_zero_iff)

theorem own_banks_empty_after_forward_witness:
  "running_ref_controlnets (ex_world (ex_options\<lparr>ref_control_list_all := Some [ex_unit ATTN 0 False]\<rparr>)) \<noteq> []
   \<and> \<not> own_banks_empty
        (snd (ex_leaky_forward 7 None
                (ex_world (ex_options\<lparr>ref_control_list_all := Some [ex_unit ATTN 0 False]\<rparr>))))
   \<and> own_banks_empty
       (snd (forward_inject_UNetModel (\<lambda>x. 2) ex_leaky_forward 5 None
               (ex_world (ex_options\<lparr>ref_control_list_all := Some [ex_unit ATTN 0 False]\<rparr>))))"
proof -
  let ?w = "ex_world (ex_options\<lparr>ref_control_list_all := Some [ex_unit ATTN 0 False]\<rparr>)"
  have run: "running_ref_controlnets ?w \<noteq> []"
    by (simp add: running_ref_controlnets_def ex_world_def ex_options_def ex_unit_should_run)
  have leak: "\<not> own_banks_empty (snd (ex_leaky_forward 7 None ?w))"
    by (simp add: own_banks_empty_def ex_leaky_forward_def ex_world_def attn_own_empty_def
        attn_bank_init_def)
  from run have "running_ref_controlnets ?w \<noteq> [] \<or> running_context_controlnets ?w \<noteq> []"
    by simp
  from own_banks_empty_after_forward[OF this] run leak show ?thesis by blast
qed

lemmas ex_eval =
  forward_inject_UNetModel_def running_ref_controlnets_def
  running_context_controlnets_def ex_context_adain_world_def ex_world_def ex_options_def
  should_run_def isclose_zero_iff ex_base_def Let_def
  forward_inject_try_def assign_cond_idxs_def ex_unit_def 
  ReferenceAdvanced_init_def ReferenceOptions_init_def is_attn_def is_adain_def LIST_ATTN_def LIST_ADAIN_def
  real_pass_lists_def call_orig_forward_def ex_plain_forward_def forward_inject_finally_def
  forward_timestep_embed_ref_inject_factory_def set_control_lists_def enumerate_eq_zip
  clean_ref_module_mem_def clean_contextref_module_mem_def

text \<open>
  C4, evaluated on a call with one running ContextRef unit of type ADAIN and no RefCN
  unit: the call returns normally, the per-block dispatch function was the original
  before the call, and after the call it is still the instrumented variant. Line 675
  substitutes when either source has an adain-capable unit; line 741 restores only when
  the RefCN source has one.
\<close>

theorem dispatch_not_restored_for_context_adain:
  "fst (forward_inject_UNetModel (\<lambda>x. 2) ex_plain_forward 5 None (ex_context_adain_world READ)) = Inr 5
   \<and> forward_timestep_embed (ex_context_adain_world READ) = comfy_forward_timestep_embed
   \<and> forward_timestep_embed
        (snd (forward_inject_UNetModel (\<lambda>x. 2) ex_plain_forward 5 None
                (ex_context_adain_world READ)))
      = ref_inject_closure comfy_forward_timestep_embed"
  by (simp add: ex_eval)

text \<open>
  C3, evaluated on the same unit: with the ContextRef ADAIN state WRITE the unit is in
  the ATTN write-list and the ADAIN write-list is empty; with the state READ it is in
  the ATTN read-list and the ADAIN read-list is empty (lines 727-730 extend the
  attention lists).
\<close>

theorem context_adain_units_go_to_attn_lists:
  "(let topts = kwargs_transformer_options
                  (snd (forward_inject_UNetModel (\<lambda>x. 2) ex_plain_forward 5 None
                          (ex_context_adain_world WRITE)))
    in ref_write_adain_control_list topts = Some []
       \<and> ref_write_attn_control_list topts = Some [ex_unit ADAIN (- 1) True])
   \<and> (let topts = kwargs_transformer_options
                  (snd (forward_inject_UNetModel (\<lambda>x. 2) ex_plain_forward 5 None
                          (ex_context_adain_world READ)))
    in ref_read_adain_control_list topts = Some []
       \<and> ref_read_attn_control_list topts = Some [ex_unit ADAIN (- 1) True])"
  by (simp add: ex_eval)

subsection \<open>should_run\<close>

lemma forward_calls_set_control_lists [simp]:
  "forward_calls (set_control_lists a b c d w) = forward_calls w"
  by (simp add: set_control_lists_def)

lemma forward_calls_call_orig_forward:
  "forward_calls (snd (call_orig_forward fwd x ctrl w)) = forward_calls w @ [x]"
  by (simp add: call_orig_forward_def split: prod.splits)

lemma length_forward_calls_ref_write_passes:
  "length (forward_calls (snd (ref_write_passes fwd ctrl units w)))
   \<le> length (forward_calls w) + length units"
proof (induction units arbitrary: w)
  case Nil
  then show ?case by simp
next
  case (Cons control rest)
  show ?case
  proof (cases "cond_hint control")
    case None
    then show ?thesis by (simp add: Let_def)
  next
    case (Some hint)
    let ?w1 = "set_control_lists []
                 (if is_attn (reference_type (ref_opts control)) then [control] else []) []
                 (if is_adain (reference_type (ref_opts control)) then [control] else []) w"
    let ?ctrl = "if \<not> ref_with_other_cns (ref_opts control) then None else ctrl"
    obtain r w2 where call: "call_orig_forward fwd hint ?ctrl ?w1 = (r, w2)"
      by (cases "call_orig_forward fwd hint ?ctrl ?w1")
    have len: "forward_calls w2 = forward_calls w @ [hint]"
      using forward_calls_call_orig_forward[of fwd hint ?ctrl ?w1] call by simp
    show ?thesis
    proof (cases r)
      case (Inl e)
      then show ?thesis using Some call len by (simp add: Let_def)
    next
      case (Inr y)
      have "length (forward_calls (snd (ref_write_passes fwd ctrl rest w2)))
            \<le> length (forward_calls w2) + length rest"
        by (rule Cons.IH)
      then show ?thesis using Some call len Inr by (simp add: Let_def)
    qed
  qed
qed

lemma forward_calls_real_pass_lists:
  "forward_calls (snd (real_pass_lists a b c d e w)) = forward_calls w"
  by (simp add: real_pass_lists_def Let_def split: option.splits)

lemma forward_calls_finally:
  "forward_calls (snd (forward_inject_finally (r, a, b, w))) = forward_calls w"
  by (simp add: forward_inject_finally_def Let_def split: option.splits)

lemma length_forward_calls_try:
  "length (forward_calls (snd (snd (snd (forward_inject_try x_shape0 fwd x ctrl units cunits w)))))
   \<le> length (forward_calls w) + length units + 1"
proof (cases "cond_or_uncond (kwargs_transformer_options w)")
  case None
  then show ?thesis by (simp add: forward_inject_try_def)
next
  case (Some cou)
  show ?thesis
  proof (cases "assign_cond_idxs (x_shape0 x) cou")
    case (Inl e)
    then show ?thesis using Some by (simp add: forward_inject_try_def)
  next
    case (Inr idxs)
    obtain uncond_idxs cond_idxs where idxs: "idxs = (uncond_idxs, cond_idxs)" by (cases idxs)
    define w2 where "w2 =
      (let w1 = w\<lparr>kwargs_transformer_options :=
                    (kwargs_transformer_options w)
                      \<lparr>ref_uncond_idxs := Some uncond_idxs, ref_cond_idxs := Some cond_idxs\<rparr>\<rparr>
       in if length (filter (\<lambda>control. is_adain (reference_type (ref_opts control))) units) > 0
             \<or> length (filter (\<lambda>control. is_adain (reference_type (ref_opts control))) cunits) > 0
          then w1\<lparr>forward_timestep_embed :=
                    forward_timestep_embed_ref_inject_factory (forward_timestep_embed w1)\<rparr>
          else w1)"
    have fc2: "forward_calls w2 = forward_calls w" by (simp add: w2_def Let_def)
    obtain r3 w3 where wp: "ref_write_passes fwd ctrl units w2 = (r3, w3)"
      by (cases "ref_write_passes fwd ctrl units w2")
    have l3: "length (forward_calls w3) \<le> length (forward_calls w) + length units"
      using length_forward_calls_ref_write_passes[of fwd ctrl units w2] wp fc2 by simp
    show ?thesis
    proof (cases r3)
      case (Inl e)
      then show ?thesis
        using Some Inr idxs wp l3
        by (simp add: forward_inject_try_def Let_def w2_def)
    next
      case r3: (Inr u)
      let ?rp = "real_pass_lists
                   (filter (\<lambda>control. is_attn (reference_type (ref_opts control))) units)
                   (filter (\<lambda>control. is_adain (reference_type (ref_opts control))) units)
                   cunits
                   (filter (\<lambda>control. is_attn (reference_type (ref_opts control))) cunits)
                   (filter (\<lambda>control. is_adain (reference_type (ref_opts control))) cunits) w3"
      obtain r4 w4 where rp: "?rp = (r4, w4)" by (cases ?rp)
      have l4: "forward_calls w4 = forward_calls w3"
        using forward_calls_real_pass_lists[of _ _ cunits _ _ w3] rp
        by (metis snd_conv)
      show ?thesis
      proof (cases r4)
        case (Inl e)
        then show ?thesis
          using Some Inr idxs wp r3 rp l3 l4
          by (simp add: forward_inject_try_def Let_def w2_def)
      next
        case r4: (Inr u4)
        obtain r5 w5 where c5: "call_orig_forward fwd x ctrl w4 = (r5, w5)"
          by (cases "call_orig_forward fwd x ctrl w4")
        have l5: "forward_calls w5 = forward_calls w4 @ [x]"
          using forward_calls_call_orig_forward[of fwd x ctrl w4] c5 by simp
        show ?thesis
          using Some Inr idxs wp r3 rp r4 c5 l3 l4 l5
          by (simp add: forward_inject_try_def Let_def w2_def)
      qed
    qed
  qed
qed

lemma length_forward_calls_forward_inject:
  "length (forward_calls (snd (forward_inject_UNetModel x_shape0 fwd x ctrl w)))
   \<le> length (forward_calls w) + length (running_ref_controlnets w) + 1"
proof (cases "length (running_ref_controlnets w) = 0 \<and> length (running_context_controlnets w) = 0")
  case True
  then show ?thesis
    using forward_calls_call_orig_forward[of fwd x ctrl w]
    by (simp add: forward_inject_UNetModel_def Let_def)
next
  case False
  let ?t = "forward_inject_try x_shape0 fwd x ctrl (running_ref_controlnets w)
              (running_context_controlnets w) w"
  obtain r a b w' where t: "?t = (r, a, b, w')" by (cases ?t)
  have "length (forward_calls w') \<le> length (forward_calls w) + length (running_ref_controlnets w) + 1"
    using length_forward_calls_try[of x_shape0 fwd x ctrl "running_ref_controlnets w"
        "running_context_controlnets w" w] t by simp
  then show ?thesis
    using False t forward_calls_finally[of r a b w']
    by (auto simp: forward_inject_UNetModel_def Let_def)
qed

lemma should_run_iff:
  "should_run u =
     (base_should_run u
      \<and> ((is_attn (reference_type (ref_opts u))
           \<and> \<not> isclose (attn_ref_weight (ref_opts u)) 0
           \<and> \<not> isclose (attn_strength (ref_opts u)) 0)
          \<or> (is_adain (reference_type (ref_opts u))
              \<and> \<not> isclose (adain_ref_weight (ref_opts u)) 0
              \<and> \<not> isclose (adain_strength (ref_opts u)) 0)))"
  by (auto simp: should_run_def Let_def)

text \<open>
  C8, amended. \<^verbatim>\<open>should_run\<close> is false when the inherited scheduling says not to
  run; otherwise it is true iff for at least one enabled channel (ATTN, ADAIN)
  \<^verbatim>\<open>math.isclose(v, 0.0)\<close> is false for both the channel's reference weight and its
  strength. With the default tolerances of \<^verbatim>\<open>math.isclose\<close> that test is \<open>v = 0\<close>:
  \<open>should_run\<close> is the specification's reading with tolerance 0, and a weight or
  strength that is small but not zero keeps its channel active. A unit that
  \<open>should_run\<close> rejects is in neither list of running units, a call makes at most one
  pass of the wrapped network per running RefCN unit and one real pass, and when no
  unit runs it makes exactly the real pass.
\<close>

theorem should_run_exact_zero:
  "should_run u =
       (base_should_run u
        \<and> ((is_attn (reference_type (ref_opts u))
             \<and> \<not> isclose (attn_ref_weight (ref_opts u)) 0
             \<and> \<not> isclose (attn_strength (ref_opts u)) 0)
            \<or> (is_adain (reference_type (ref_opts u))
                \<and> \<not> isclose (adain_ref_weight (ref_opts u)) 0
                \<and> \<not> isclose (adain_strength (ref_opts u)) 0)))
   \<and> isclose v 0 = (v = 0)
   \<and> should_run u = should_run_within 0 u
   \<and> (\<not> should_run u \<longrightarrow>
        u \<notin> set (running_ref_controlnets w) \<and> u \<notin> set (running_context_controlnets w))
   \<and> length (forward_calls (snd (forward_inject_UNetModel x_shape0 fwd x ctrl w)))
       \<le> length (forward_calls w) + length (running_ref_controlnets w) + 1
   \<and> (running_ref_controlnets w = [] \<and> running_context_controlnets w = [] \<longrightarrow>
        forward_calls (snd (forward_inject_UNetModel x_shape0 fwd x ctrl w))
        = forward_calls w @ [x])"
proof -
  have a: "should_run u = should_run_within 0 u"
    by (auto simp: should_run_iff should_run_within_def channel_active_within_def
        isclose_zero_iff)
  have d: "\<not> should_run u \<Longrightarrow>
      u \<notin> set (running_ref_controlnets w) \<and> u \<notin> set (running_context_controlnets w)"
    by (simp add: running_ref_controlnets_def running_context_controlnets_def)
  have f: "running_ref_controlnets w = [] \<and> running_context_controlnets w = [] \<Longrightarrow>
      forward_calls (snd (forward_inject_UNetModel x_shape0 fwd x ctrl w)) = forward_calls w @ [x]"
    using forward_calls_call_orig_forward[of fwd x ctrl w]
    by (simp add: forward_inject_UNetModel_def Let_def)
  show ?thesis
    using a should_run_iff[of u] isclose_zero_iff[of v] d f
      length_forward_calls_forward_inject[of x_shape0 fwd x ctrl w]
    by blast
qed

theorem should_run_exact_zero_witness:
  "\<not> should_run ex_zero_weight_unit
   \<and> running_ref_controlnets
       (ex_world (ex_options\<lparr>ref_control_list_all := Some [ex_zero_weight_unit]\<rparr>)) = []
   \<and> running_context_controlnets
       (ex_world (ex_options\<lparr>ref_control_list_all := Some [ex_zero_weight_unit]\<rparr>)) = []
   \<and> forward_calls
       (snd (forward_inject_UNetModel (\<lambda>x. 2) ex_plain_forward 5 None
               (ex_world (ex_options\<lparr>ref_control_list_all := Some [ex_zero_weight_unit]\<rparr>))))
     = [5]"
proof -
  let ?w = "ex_world (ex_options\<lparr>ref_control_list_all := Some [ex_zero_weight_unit]\<rparr>)"
  have n: "\<not> should_run ex_zero_weight_unit"
    by (simp add: should_run_iff ex_zero_weight_unit_def ex_base_def
        ReferenceAdvanced_init_def ReferenceOptions_init_def is_attn_def LIST_ATTN_def
        is_adain_def LIST_ADAIN_def isclose_zero_iff)
  have r: "running_ref_controlnets ?w = []"
    using n by (simp add: running_ref_controlnets_def ex_world_def ex_options_def)
  have c: "running_context_controlnets ?w = []"
    by (simp add: running_context_controlnets_def ex_world_def ex_options_def)
  have e: "forward_calls ?w = []" by (simp add: ex_world_def)
  from should_run_exact_zero[of ex_zero_weight_unit 0 ?w "\<lambda>x. 2" ex_plain_forward 5 None]
  have "forward_calls (snd (forward_inject_UNetModel (\<lambda>x. 2) ex_plain_forward 5 None ?w))
        = forward_calls ?w @ [5]"
    using r c by blast
  then show ?thesis using n r c e by simp
qed

text \<open>
  C8 as stated fails: a unit whose attention weight is \<open>10\<^sup>-\<^sup>1\<^sup>2\<close> runs, although
  the weight is within \<open>10\<^sup>-\<^sup>9\<close> of zero.
\<close>

theorem should_run_tolerance_counterexample:
  "should_run ex_tiny_weight_unit \<and> \<not> should_run_within (1 / 10 ^ 9) ex_tiny_weight_unit"
  by (simp add: should_run_iff should_run_within_def channel_active_within_def
      ex_tiny_weight_unit_def ex_base_def ReferenceAdvanced_init_def ReferenceOptions_init_def
      is_attn_def LIST_ATTN_def is_adain_def LIST_ADAIN_def isclose_zero_iff)


subsection \<open>WRITE\<close>

text \<open>
  C5, evaluated on a write-list of two units that both exceed the layer's threshold, a
  RefCN unit with order 3 and fidelity 1/4 followed by a ContextRef unit with order 7
  and fidelity 3/4. Attention WRITE routes the tensor to the own-origin and to the
  context-origin sub-bank, but both entries carry fidelity 1/4 and order 3, those of
  \<^verbatim>\<open>ref_write_cns[0]\<close> (lines 869-870 and 874-875). The same happens for a
  write-list of two ContextRef units, as the real pass builds it: both context entries
  carry fidelity 1/4 and order 3. Normalization WRITE stores each unit's own fidelity and
  order (lines 1051-1052 and 1057-1058).
\<close>

theorem attn_write_stores_first_units_metadata:
  "attn_write ex_attn_holder 9
       [ex_unit_fid ATTN_ADAIN 3 False (1 / 4), ex_unit_fid ATTN_ADAIN 7 True (3 / 4)]
     = (\<lparr> bank = [9], style_cfgs = [1 / 4], cn_idx = [3],
          c_bank = [9], c_style_cfgs = [1 / 4], c_cn_idx = [3] \<rparr>, True)
   \<and> attn_write ex_attn_holder 9
       [ex_unit_fid ATTN_ADAIN 3 True (1 / 4), ex_unit_fid ATTN_ADAIN 7 True (3 / 4)]
     = (\<lparr> bank = [], style_cfgs = [], cn_idx = [],
          c_bank = [9, 9], c_style_cfgs = [1 / 4, 1 / 4], c_cn_idx = [3, 3] \<rparr>, True)
   \<and> gn_write_loop ex_torch (gn_weight ex_gn_holder) 9
       [ex_unit_fid ATTN_ADAIN 3 False (1 / 4), ex_unit_fid ATTN_ADAIN 7 True (3 / 4)]
       (gn_bank_styles ex_gn_holder, False)
     = (\<lparr> var_bank = [81], mean_bank = [9], gn_style_cfgs = [1 / 4], gn_cn_idx = [3],
          c_var_bank = [81], c_mean_bank = [9], gn_c_style_cfgs = [3 / 4],
          gn_c_cn_idx = [7] \<rparr>, True)"
  by (simp add: attn_write_def ex_attn_holder_def ex_gn_holder_def ex_unit_fid_def
      ReferenceAdvanced_init_def ReferenceOptions_init_def ex_base_def attn_bank_init_def
      gn_bank_init_def ex_torch_def)


subsection \<open>Fidelity\<close>

lemma fidelity_blend_one: "fidelity_blend 1 n_c n_uc = n_c"
  by (simp add: fidelity_blend_def)

lemma fidelity_blend_zero: "fidelity_blend 0 n_c n_uc = n_uc"
  by (simp add: fidelity_blend_def)

lemma not_isclose_one_zero: "\<not> isclose 1 0"
  by (simp add: isclose_zero_iff)

lemma fidelity_blend_same: "fidelity_blend f a a = a"
  by (simp add: fidelity_blend_def scaleR_left_distrib[symmetric])

lemma attn_read_output_one:
  "attn_read_output torch self n context_attn1 value_attn1 uc_idx_mask 1 real_bank
   = (if uc_idx_mask \<noteq> []
      then index_put_rows torch (attn_n_uc torch self n context_attn1 value_attn1 real_bank)
             uc_idx_mask (attn_uc_rows torch self n context_attn1 value_attn1 uc_idx_mask)
      else attn_n_uc torch self n context_attn1 value_attn1 real_bank)"
  by (simp add: attn_read_output_def Let_def fidelity_blend_one not_isclose_one_zero
      attn_n_uc_def attn_uc_rows_def)

lemma attn_read_output_zero:
  "attn_read_output torch self n context_attn1 value_attn1 uc_idx_mask 0 real_bank
   = attn_n_uc torch self n context_attn1 value_attn1 real_bank"
  by (simp add: attn_read_output_def Let_def fidelity_blend_zero isclose_zero_iff attn_n_uc_def)

lemma attn_read_output_no_uncond:
  "attn_read_output torch self n context_attn1 value_attn1 [] f real_bank
   = attn_n_uc torch self n context_attn1 value_attn1 real_bank"
  by (simp add: attn_read_output_def Let_def fidelity_blend_same attn_n_uc_def)

lemma adain_read_output_no_uncond: "adain_read_output torch x [] f y_uc = y_uc"
  by (simp add: adain_read_output_def Let_def fidelity_blend_same)

lemma rows2_eval:
  "Rows2 a b + Rows2 c d = Rows2 (a + c) (b + d)"
  "Rows2 a b - Rows2 c d = Rows2 (a - c) (b - d)"
  "r *\<^sub>R Rows2 a b = Rows2 (r * a) (r * b)"
  "(0 :: rows2) = Rows2 0 0"
  by (simp_all add: plus_rows2_def minus_rows2_def scaleR_rows2_def zero_rows2_def)


lemma adain_read_output_one:
  "adain_read_output torch x uc_idx_mask 1 y_uc
   = (if uc_idx_mask \<noteq> []
      then index_put_rows torch y_uc uc_idx_mask (index_rows torch x uc_idx_mask)
      else y_uc)"
  by (simp add: adain_read_output_def Let_def fidelity_blend_one not_isclose_one_zero)

lemma attn_read_output_blend:
  "attn_read_output torch self n context_attn1 value_attn1 uc_idx_mask f real_bank
   = fidelity_blend f
       (if uc_idx_mask \<noteq> [] \<and> f \<noteq> 0
        then index_put_rows torch (attn_n_uc torch self n context_attn1 value_attn1 real_bank)
               uc_idx_mask (attn_uc_rows torch self n context_attn1 value_attn1 uc_idx_mask)
        else attn_n_uc torch self n context_attn1 value_attn1 real_bank)
       (attn_n_uc torch self n context_attn1 value_attn1 real_bank)"
  by (simp add: attn_read_output_def Let_def isclose_zero_iff attn_n_uc_def attn_uc_rows_def)

lemma adain_read_output_blend:
  "adain_read_output torch x uc_idx_mask f y_uc
   = fidelity_blend f
       (if uc_idx_mask \<noteq> [] \<and> f \<noteq> 0
        then index_put_rows torch y_uc uc_idx_mask (index_rows torch x uc_idx_mask)
        else y_uc)
       y_uc"
  by (simp add: adain_read_output_def Let_def isclose_zero_iff)

lemma attn_read_output_one_rows:
  assumes "uc_idx_mask \<noteq> []"
    and "assigns_rows torch uc_idx_mask others
           (attn_uc_rows torch self n context_attn1 value_attn1 uc_idx_mask)"
  shows "index_rows torch
           (attn_read_output torch self n context_attn1 value_attn1 uc_idx_mask 1 real_bank)
           uc_idx_mask
         = attn_uc_rows torch self n context_attn1 value_attn1 uc_idx_mask"
    and "index_rows torch
           (attn_read_output torch self n context_attn1 value_attn1 uc_idx_mask 1 real_bank)
           others
         = index_rows torch (attn_n_uc torch self n context_attn1 value_attn1 real_bank) others"
  using assms by (simp_all add: attn_read_output_one assigns_rows_def)

lemma adain_read_output_one_rows:
  assumes "uc_idx_mask \<noteq> []"
    and "assigns_rows torch uc_idx_mask others (index_rows torch x uc_idx_mask)"
  shows "index_rows torch (adain_read_output torch x uc_idx_mask 1 y_uc) uc_idx_mask
         = index_rows torch x uc_idx_mask"
    and "index_rows torch (adain_read_output torch x uc_idx_mask 1 y_uc) others
         = index_rows torch y_uc others"
  using assms by (simp_all add: adain_read_output_one assigns_rows_def)

lemma adain_read_output_zero: "adain_read_output torch x uc_idx_mask 0 y_uc = y_uc"
  by (simp add: adain_read_output_def Let_def fidelity_blend_zero isclose_zero_iff)

lemma reference_attn1_read:
  assumes "ref_read_attn_control_list topts = Some ref_read_cns"
    and "ref_read_cns \<noteq> []"
    and "attn_write holder n
           (case ref_write_attn_control_list topts of None \<Rightarrow> [] | Some l \<Rightarrow> l) = (bs, ignore)"
    and "get_bank bs ignore \<noteq> []"
    and "get_avg_style_fidelity bs ignore = Inr style_fidelity"
    and "attn_read_entries torch (is_middle holder) ref_read_cns n
           (case context_attn1 of None \<Rightarrow> n | Some c \<Rightarrow> c) 0
           (enumerate 0 (get_cn_idxs bs ignore)) (get_bank bs ignore) = Inr real_bank"
  shows "reference_attn1 torch self holder n context_attn1 topts
         = (Inr (attn_read_output torch self n (case context_attn1 of None \<Rightarrow> n | Some c \<Rightarrow> c)
                   None (case ref_uncond_idxs topts of None \<Rightarrow> [] | Some l \<Rightarrow> l)
                   style_fidelity real_bank),
            holder\<lparr>bank_styles := attn_bank_clean_ref bs\<rparr>)"
  using assms by (simp add: reference_attn1_def Let_def)

lemma forward_timestep_embed_ref_inject_read:
  assumes "ref_read_adain_control_list topts = Some ref_read_cns"
    and "ref_read_cns \<noteq> []"
    and "gn_write_loop torch (gn_weight holder) x
           (case ref_write_adain_control_list topts of None \<Rightarrow> [] | Some l \<Rightarrow> l)
           (gn_bank_styles holder, False) = (bs, ignore)"
    and "get_var_bank bs ignore \<noteq> []"
    and "adain_read_entries torch ref_read_cns x (snd (var_mean torch x))
           (std_of_var torch (fst (var_mean torch x))) (get_style_cfgs bs ignore)
           (get_var_bank bs ignore) (get_mean_bank bs ignore) (0, 0, None)
           (enumerate 0 (get_cn_idx bs ignore)) = Inr (cn_idx1, y_uc, Some style_fidelity)"
  shows "forward_timestep_embed_ref_inject torch (Some holder) x topts
         = (Inr (adain_read_output torch x (case ref_uncond_idxs topts of None \<Rightarrow> [] | Some l \<Rightarrow> l)
                   style_fidelity
                   (if length (gn_cn_idx bs) > 1 then y_uc /\<^sub>R real (length (gn_cn_idx bs))
                    else y_uc)),
            Some (holder\<lparr>gn_bank_styles := gn_bank_clean_ref bs\<rparr>))"
  using assms by (simp add: forward_timestep_embed_ref_inject_def Let_def)



text \<open>
  C9, as amended. The output of both READ paths is \<open>fidelity_blend f n_c n_uc\<close>, where
  \<open>n_uc\<close> is the bank-blended branch and \<open>n_c\<close> is a copy of \<open>n_uc\<close> in which only the
  rows of the unconditional samples are replaced, by the attention without the bank or,
  in the normalization path, by the input \<open>x\<close>; the rows are replaced only when there
  is an unconditional row and the fidelity is not zero. With fidelity 0 the output is
  the bank-blended branch. With no unconditional row it is the bank-blended branch for
  every fidelity. With fidelity 1 it is \<open>n_c\<close>: its unconditional rows are the values
  computed without the bank, and every other row is the row of the bank-blended branch.
  The consumed fidelity is the average over the consumed entries in the attention READ
  and the fidelity of the last consumed entry in the normalization READ; the last two
  conjuncts say that the layer functions return these outputs whenever READ is taken.
\<close>

theorem fidelity_boundary:
  "attn_read_output torch self n attn_context attn_value uc_idx_mask f real_bank
     = fidelity_blend f
         (if uc_idx_mask \<noteq> [] \<and> f \<noteq> 0
          then index_put_rows torch (attn_n_uc torch self n attn_context attn_value real_bank)
                 uc_idx_mask (attn_uc_rows torch self n attn_context attn_value uc_idx_mask)
          else attn_n_uc torch self n attn_context attn_value real_bank)
         (attn_n_uc torch self n attn_context attn_value real_bank)
   \<and> attn_read_output torch self n attn_context attn_value uc_idx_mask 0 real_bank
       = attn_n_uc torch self n attn_context attn_value real_bank
   \<and> attn_read_output torch self n attn_context attn_value [] f real_bank
       = attn_n_uc torch self n attn_context attn_value real_bank
   \<and> (uc_idx_mask \<noteq> [] \<longrightarrow>
        attn_read_output torch self n attn_context attn_value uc_idx_mask 1 real_bank
        = index_put_rows torch (attn_n_uc torch self n attn_context attn_value real_bank)
            uc_idx_mask (attn_uc_rows torch self n attn_context attn_value uc_idx_mask))
   \<and> (uc_idx_mask \<noteq> []
       \<and> assigns_rows torch uc_idx_mask others
            (attn_uc_rows torch self n attn_context attn_value uc_idx_mask) \<longrightarrow>
        index_rows torch
          (attn_read_output torch self n attn_context attn_value uc_idx_mask 1 real_bank)
          uc_idx_mask
        = attn_uc_rows torch self n attn_context attn_value uc_idx_mask
        \<and> index_rows torch
            (attn_read_output torch self n attn_context attn_value uc_idx_mask 1 real_bank)
            others
          = index_rows torch (attn_n_uc torch self n attn_context attn_value real_bank)
              others)
   \<and> adain_read_output torch x uc_idx_mask f y_uc
       = fidelity_blend f
           (if uc_idx_mask \<noteq> [] \<and> f \<noteq> 0
            then index_put_rows torch y_uc uc_idx_mask (index_rows torch x uc_idx_mask)
            else y_uc)
           y_uc
   \<and> adain_read_output torch x uc_idx_mask 0 y_uc = y_uc
   \<and> adain_read_output torch x [] f y_uc = y_uc
   \<and> (uc_idx_mask \<noteq> [] \<longrightarrow>
        adain_read_output torch x uc_idx_mask 1 y_uc
        = index_put_rows torch y_uc uc_idx_mask (index_rows torch x uc_idx_mask))
   \<and> (uc_idx_mask \<noteq> []
       \<and> assigns_rows torch uc_idx_mask others (index_rows torch x uc_idx_mask) \<longrightarrow>
        index_rows torch (adain_read_output torch x uc_idx_mask 1 y_uc) uc_idx_mask
        = index_rows torch x uc_idx_mask
        \<and> index_rows torch (adain_read_output torch x uc_idx_mask 1 y_uc) others
          = index_rows torch y_uc others)
   \<and> (ref_read_attn_control_list topts = Some ref_read_cns \<and> ref_read_cns \<noteq> []
       \<and> attn_write holder n
            (case ref_write_attn_control_list topts of None \<Rightarrow> [] | Some l \<Rightarrow> l) = (bs, ignore)
       \<and> get_bank bs ignore \<noteq> []
       \<and> get_avg_style_fidelity bs ignore = Inr style_fidelity
       \<and> attn_read_entries torch (is_middle holder) ref_read_cns n
            (case ctx of None \<Rightarrow> n | Some c \<Rightarrow> c) 0
            (enumerate 0 (get_cn_idxs bs ignore)) (get_bank bs ignore) = Inr blended_bank
       \<longrightarrow> fst (reference_attn1 torch self holder n ctx topts)
           = Inr (attn_read_output torch self n (case ctx of None \<Rightarrow> n | Some c \<Rightarrow> c) None
                    (case ref_uncond_idxs topts of None \<Rightarrow> [] | Some l \<Rightarrow> l)
                    style_fidelity blended_bank))
   \<and> (ref_read_adain_control_list topts = Some ref_read_cns \<and> ref_read_cns \<noteq> []
       \<and> gn_write_loop torch (gn_weight gn_holder) x
            (case ref_write_adain_control_list topts of None \<Rightarrow> [] | Some l \<Rightarrow> l)
            (gn_bank_styles gn_holder, False) = (gbs, gignore)
       \<and> get_var_bank gbs gignore \<noteq> []
       \<and> adain_read_entries torch ref_read_cns x (snd (var_mean torch x))
            (std_of_var torch (fst (var_mean torch x))) (get_style_cfgs gbs gignore)
            (get_var_bank gbs gignore) (get_mean_bank gbs gignore) (0, 0, None)
            (enumerate 0 (get_cn_idx gbs gignore)) = Inr (cn_idx1, y_acc, Some last_fidelity)
       \<longrightarrow> fst (forward_timestep_embed_ref_inject torch (Some gn_holder) x topts)
           = Inr (adain_read_output torch x
                    (case ref_uncond_idxs topts of None \<Rightarrow> [] | Some l \<Rightarrow> l) last_fidelity
                    (if length (gn_cn_idx gbs) > 1
                     then y_acc /\<^sub>R real (length (gn_cn_idx gbs)) else y_acc)))"
proof -
  note a = attn_read_output_blend[of torch self n attn_context attn_value uc_idx_mask f
      real_bank]
    attn_read_output_zero[of torch self n attn_context attn_value uc_idx_mask real_bank]
    attn_read_output_no_uncond[of torch self n attn_context attn_value f real_bank]
    attn_read_output_one[of torch self n attn_context attn_value uc_idx_mask real_bank]
    attn_read_output_one_rows[of uc_idx_mask torch others self n attn_context attn_value
      real_bank]
  note g = adain_read_output_blend[of torch x uc_idx_mask f y_uc]
    adain_read_output_zero[of torch x uc_idx_mask y_uc]
    adain_read_output_no_uncond[of torch x f y_uc]
    adain_read_output_one[of torch x uc_idx_mask y_uc]
    adain_read_output_one_rows[of uc_idx_mask torch others x y_uc]
  note l = reference_attn1_read[of topts ref_read_cns holder n bs ignore style_fidelity torch
      ctx blended_bank self]
    forward_timestep_embed_ref_inject_read[of topts ref_read_cns torch gn_holder x gbs gignore
      cn_idx1 y_acc last_fidelity]
  have attn: "attn_read_output torch self n attn_context attn_value uc_idx_mask f real_bank
     = fidelity_blend f
         (if uc_idx_mask \<noteq> [] \<and> f \<noteq> 0
          then index_put_rows torch (attn_n_uc torch self n attn_context attn_value real_bank)
                 uc_idx_mask (attn_uc_rows torch self n attn_context attn_value uc_idx_mask)
          else attn_n_uc torch self n attn_context attn_value real_bank)
         (attn_n_uc torch self n attn_context attn_value real_bank)
   \<and> attn_read_output torch self n attn_context attn_value uc_idx_mask 0 real_bank
       = attn_n_uc torch self n attn_context attn_value real_bank
   \<and> attn_read_output torch self n attn_context attn_value [] f real_bank
       = attn_n_uc torch self n attn_context attn_value real_bank
   \<and> (uc_idx_mask \<noteq> [] \<longrightarrow>
        attn_read_output torch self n attn_context attn_value uc_idx_mask 1 real_bank
        = index_put_rows torch (attn_n_uc torch self n attn_context attn_value real_bank)
            uc_idx_mask (attn_uc_rows torch self n attn_context attn_value uc_idx_mask))
   \<and> (uc_idx_mask \<noteq> []
       \<and> assigns_rows torch uc_idx_mask others
            (attn_uc_rows torch self n attn_context attn_value uc_idx_mask) \<longrightarrow>
        index_rows torch
          (attn_read_output torch self n attn_context attn_value uc_idx_mask 1 real_bank)
          uc_idx_mask
        = attn_uc_rows torch self n attn_context attn_value uc_idx_mask
        \<and> index_rows torch
            (attn_read_output torch self n attn_context attn_value uc_idx_mask 1 real_bank)
            others
          = index_rows torch (attn_n_uc torch self n attn_context attn_value real_bank)
              others)"
    using a by presburger
  have gn: "adain_read_output torch x uc_idx_mask f y_uc
       = fidelity_blend f
           (if uc_idx_mask \<noteq> [] \<and> f \<noteq> 0
            then index_put_rows torch y_uc uc_idx_mask (index_rows torch x uc_idx_mask)
            else y_uc)
           y_uc
   \<and> adain_read_output torch x uc_idx_mask 0 y_uc = y_uc
   \<and> adain_read_output torch x [] f y_uc = y_uc
   \<and> (uc_idx_mask \<noteq> [] \<longrightarrow>
        adain_read_output torch x uc_idx_mask 1 y_uc
        = index_put_rows torch y_uc uc_idx_mask (index_rows torch x uc_idx_mask))
   \<and> (uc_idx_mask \<noteq> []
       \<and> assigns_rows torch uc_idx_mask others (index_rows torch x uc_idx_mask) \<longrightarrow>
        index_rows torch (adain_read_output torch x uc_idx_mask 1 y_uc) uc_idx_mask
        = index_rows torch x uc_idx_mask
        \<and> index_rows torch (adain_read_output torch x uc_idx_mask 1 y_uc) others
          = index_rows torch y_uc others)"
    using g by presburger
  have l1: "ref_read_attn_control_list topts = Some ref_read_cns \<and> ref_read_cns \<noteq> []
       \<and> attn_write holder n
            (case ref_write_attn_control_list topts of None \<Rightarrow> [] | Some l \<Rightarrow> l) = (bs, ignore)
       \<and> get_bank bs ignore \<noteq> []
       \<and> get_avg_style_fidelity bs ignore = Inr style_fidelity
       \<and> attn_read_entries torch (is_middle holder) ref_read_cns n
            (case ctx of None \<Rightarrow> n | Some c \<Rightarrow> c) 0
            (enumerate 0 (get_cn_idxs bs ignore)) (get_bank bs ignore) = Inr blended_bank
       \<longrightarrow> fst (reference_attn1 torch self holder n ctx topts)
           = Inr (attn_read_output torch self n (case ctx of None \<Rightarrow> n | Some c \<Rightarrow> c) None
                    (case ref_uncond_idxs topts of None \<Rightarrow> [] | Some l \<Rightarrow> l)
                    style_fidelity blended_bank)"
    using l(1) by simp
  have l2: "ref_read_adain_control_list topts = Some ref_read_cns \<and> ref_read_cns \<noteq> []
       \<and> gn_write_loop torch (gn_weight gn_holder) x
            (case ref_write_adain_control_list topts of None \<Rightarrow> [] | Some l \<Rightarrow> l)
            (gn_bank_styles gn_holder, False) = (gbs, gignore)
       \<and> get_var_bank gbs gignore \<noteq> []
       \<and> adain_read_entries torch ref_read_cns x (snd (var_mean torch x))
            (std_of_var torch (fst (var_mean torch x))) (get_style_cfgs gbs gignore)
            (get_var_bank gbs gignore) (get_mean_bank gbs gignore) (0, 0, None)
            (enumerate 0 (get_cn_idx gbs gignore)) = Inr (cn_idx1, y_acc, Some last_fidelity)
       \<longrightarrow> fst (forward_timestep_embed_ref_inject torch (Some gn_holder) x topts)
           = Inr (adain_read_output torch x
                    (case ref_uncond_idxs topts of None \<Rightarrow> [] | Some l \<Rightarrow> l) last_fidelity
                    (if length (gn_cn_idx gbs) > 1
                     then y_acc /\<^sub>R real (length (gn_cn_idx gbs)) else y_acc))"
    using l(2) by simp
  from attn gn l1 l2 show ?thesis by blast
qed




lemmas ex_rows_eval =
  ex_rows_unit_def ex_rows_base_def ReferenceAdvanced_init_def ReferenceOptions_init_def
  ex_rows_read_def ex_rows_options_def ex_rows_attn_written_def ex_rows_gn_written_def
  attn_bank_init_def gn_bank_init_def attn_write_def ex_rows_torch_def ex_rows_block_def
  rows_map2_def rows2_eval
  reference_attn1_def forward_timestep_embed_ref_inject_def Let_def
  get_bank_def get_cn_idxs_def get_avg_style_fidelity_def get_var_bank_def get_mean_bank_def
  get_style_cfgs_def get_cn_idx_def matched_cn_idx_def find_cn_idx_def enumerate_eq_zip
  any_attn_strength_to_apply_def any_adain_strength_to_apply_def
  get_effective_attn_mask_or_float_def get_effective_adain_mask_or_float_def
  get_effective_strength_def blend_strength_def attn_read_output_def adain_read_output_def
  adain_sub_y_uc_def fidelity_blend_def isclose_zero_iff attn_bank_clean_ref_def
  gn_bank_clean_ref_def attn_n_uc_def attn_uc_rows_def

theorem fidelity_boundary_witness:
  "assigns_rows ex_rows_torch [1] [0]
     (attn_uc_rows ex_rows_torch ex_rows_block (Rows2 2 3) (Rows2 2 3) None [1])
   \<and> assigns_rows ex_rows_torch [1] [0] (index_rows ex_rows_torch (Rows2 2 3) [1])
   \<and> index_rows ex_rows_torch
        (attn_read_output ex_rows_torch ex_rows_block (Rows2 2 3) (Rows2 2 3) None [1] 1
           [Rows2 70 70]) [1] = Rows2 0 33
   \<and> index_rows ex_rows_torch
        (attn_read_output ex_rows_torch ex_rows_block (Rows2 2 3) (Rows2 2 3) None [1] 1
           [Rows2 70 70]) [0] = Rows2 722 0
   \<and> index_rows ex_rows_torch
        (adain_read_output ex_rows_torch (Rows2 2 3) [1] 1 (Rows2 70 70)) [1] = Rows2 0 3
   \<and> index_rows ex_rows_torch
        (adain_read_output ex_rows_torch (Rows2 2 3) [1] 1 (Rows2 70 70)) [0] = Rows2 70 0
   \<and> attn_read_output ex_rows_torch ex_rows_block (Rows2 2 3) (Rows2 2 3) None [1] 0
        [Rows2 70 70] = Rows2 722 733
   \<and> adain_read_output ex_rows_torch (Rows2 2 3) [1] 0 (Rows2 70 70) = Rows2 70 70
   \<and> fst (reference_attn1 ex_rows_torch ex_rows_block (ex_rows_attn_written (Rows2 70 70) 1)
          (Rows2 2 3) None (ex_rows_read 1 [1]))
       = Inr (attn_read_output ex_rows_torch ex_rows_block (Rows2 2 3) (Rows2 2 3) None [1] 1
                [Rows2 70 70])
   \<and> fst (forward_timestep_embed_ref_inject ex_rows_torch
            (Some (ex_rows_gn_written (Rows2 70 70) 1)) (Rows2 2 3) (ex_rows_read 1 [1]))
       = Inr (adain_read_output ex_rows_torch (Rows2 2 3) [1] 1 (Rows2 70 70))"
proof -
  have p3:
    "ref_read_attn_control_list (ex_rows_read 1 [1]) = Some [ex_rows_unit ATTN_ADAIN 3 False 1]
     \<and> [ex_rows_unit ATTN_ADAIN 3 False 1] \<noteq> []
     \<and> attn_write (ex_rows_attn_written (Rows2 70 70) 1) (Rows2 2 3)
          (case ref_write_attn_control_list (ex_rows_read 1 [1]) of None \<Rightarrow> [] | Some l \<Rightarrow> l)
        = (bank_styles (ex_rows_attn_written (Rows2 70 70) 1), False)
     \<and> get_bank (bank_styles (ex_rows_attn_written (Rows2 70 70) 1)) False \<noteq> []
     \<and> get_avg_style_fidelity (bank_styles (ex_rows_attn_written (Rows2 70 70) 1)) False
        = Inr 1
     \<and> attn_read_entries ex_rows_torch (is_middle (ex_rows_attn_written (Rows2 70 70) 1))
          [ex_rows_unit ATTN_ADAIN 3 False 1] (Rows2 2 3)
          (case None of None \<Rightarrow> Rows2 2 3 | Some c \<Rightarrow> c) 0
          (enumerate 0 (get_cn_idxs (bank_styles (ex_rows_attn_written (Rows2 70 70) 1)) False))
          (get_bank (bank_styles (ex_rows_attn_written (Rows2 70 70) 1)) False)
        = Inr [Rows2 70 70]"
    by (simp add: ex_rows_eval)
  have p4:
    "ref_read_adain_control_list (ex_rows_read 1 [1])
       = Some [ex_rows_unit ATTN_ADAIN 3 False 1]
     \<and> [ex_rows_unit ATTN_ADAIN 3 False 1] \<noteq> []
     \<and> gn_write_loop ex_rows_torch (gn_weight (ex_rows_gn_written (Rows2 70 70) 1)) (Rows2 2 3)
          (case ref_write_adain_control_list (ex_rows_read 1 [1]) of None \<Rightarrow> [] | Some l \<Rightarrow> l)
          (gn_bank_styles (ex_rows_gn_written (Rows2 70 70) 1), False)
        = (gn_bank_styles (ex_rows_gn_written (Rows2 70 70) 1), False)
     \<and> get_var_bank (gn_bank_styles (ex_rows_gn_written (Rows2 70 70) 1)) False \<noteq> []
     \<and> adain_read_entries ex_rows_torch [ex_rows_unit ATTN_ADAIN 3 False 1] (Rows2 2 3)
          (snd (var_mean ex_rows_torch (Rows2 2 3)))
          (std_of_var ex_rows_torch (fst (var_mean ex_rows_torch (Rows2 2 3))))
          (get_style_cfgs (gn_bank_styles (ex_rows_gn_written (Rows2 70 70) 1)) False)
          (get_var_bank (gn_bank_styles (ex_rows_gn_written (Rows2 70 70) 1)) False)
          (get_mean_bank (gn_bank_styles (ex_rows_gn_written (Rows2 70 70) 1)) False)
          (0, 0, None)
          (enumerate 0 (get_cn_idx (gn_bank_styles (ex_rows_gn_written (Rows2 70 70) 1)) False))
        = Inr (0, Rows2 70 70, Some 1)"
    by (simp add: ex_rows_eval)
  note t2 = fidelity_boundary[where torch = ex_rows_torch and self = ex_rows_block
      and n = "Rows2 2 3" and x = "Rows2 2 3" and topts = "ex_rows_read 1 [1]"
      and ref_read_cns = "[ex_rows_unit ATTN_ADAIN 3 False 1]"
      and holder = "ex_rows_attn_written (Rows2 70 70) 1"
      and bs = "bank_styles (ex_rows_attn_written (Rows2 70 70) 1)" and ignore = False
      and style_fidelity = 1 and ctx = None and blended_bank = "[Rows2 70 70]"
      and gn_holder = "ex_rows_gn_written (Rows2 70 70) 1"
      and gbs = "gn_bank_styles (ex_rows_gn_written (Rows2 70 70) 1)" and gignore = False
      and y_acc = "Rows2 70 70" and last_fidelity = 1,
      THEN conjunct2, THEN conjunct2, THEN conjunct2, THEN conjunct2, THEN conjunct2,
      THEN conjunct2, THEN conjunct2, THEN conjunct2, THEN conjunct2, THEN conjunct2]
  have l1: "fst (reference_attn1 ex_rows_torch ex_rows_block
                   (ex_rows_attn_written (Rows2 70 70) 1) (Rows2 2 3) None (ex_rows_read 1 [1]))
       = Inr (attn_read_output ex_rows_torch ex_rows_block (Rows2 2 3)
                (case None of None \<Rightarrow> Rows2 2 3 | Some c \<Rightarrow> c) None
                (case ref_uncond_idxs (ex_rows_read 1 [1]) of None \<Rightarrow> [] | Some l \<Rightarrow> l)
                1 [Rows2 70 70])"
    by (rule mp[OF t2[THEN conjunct1] p3])
  have l2: "fst (forward_timestep_embed_ref_inject ex_rows_torch
                   (Some (ex_rows_gn_written (Rows2 70 70) 1)) (Rows2 2 3) (ex_rows_read 1 [1]))
       = Inr (adain_read_output ex_rows_torch (Rows2 2 3)
                (case ref_uncond_idxs (ex_rows_read 1 [1]) of None \<Rightarrow> [] | Some l \<Rightarrow> l) 1
                (if length (gn_cn_idx (gn_bank_styles (ex_rows_gn_written (Rows2 70 70) 1))) > 1
                 then Rows2 70 70
                      /\<^sub>R real (length (gn_cn_idx
                                         (gn_bank_styles (ex_rows_gn_written (Rows2 70 70) 1))))
                 else Rows2 70 70))"
    by (rule mp[OF t2[THEN conjunct2] p4])
  have uc: "(case ref_uncond_idxs (ex_rows_read 1 [1]) of None \<Rightarrow> [] | Some l \<Rightarrow> l) = [1]"
    "length (gn_cn_idx (gn_bank_styles (ex_rows_gn_written (Rows2 70 70) 1))) = 1"
    by (simp_all add: ex_rows_read_def ex_rows_gn_written_def gn_bank_init_def ex_rows_unit_def
        ReferenceAdvanced_init_def ReferenceOptions_init_def)
  have l1': "fst (reference_attn1 ex_rows_torch ex_rows_block
                   (ex_rows_attn_written (Rows2 70 70) 1) (Rows2 2 3) None (ex_rows_read 1 [1]))
       = Inr (attn_read_output ex_rows_torch ex_rows_block (Rows2 2 3) (Rows2 2 3) None [1] 1
                [Rows2 70 70])"
    using l1 unfolding uc by simp
  have l2': "fst (forward_timestep_embed_ref_inject ex_rows_torch
            (Some (ex_rows_gn_written (Rows2 70 70) 1)) (Rows2 2 3) (ex_rows_read 1 [1]))
       = Inr (adain_read_output ex_rows_torch (Rows2 2 3) [1] 1 (Rows2 70 70))"
    using l2 unfolding uc by simp
  have p1: "[1] \<noteq> ([] :: nat list)
     \<and> assigns_rows ex_rows_torch [1] [0]
          (attn_uc_rows ex_rows_torch ex_rows_block (Rows2 2 3) (Rows2 2 3) None [1])"
    by (simp add: assigns_rows_def attn_uc_rows_def ex_rows_torch_def ex_rows_block_def
        rows2_eval)
  have p2: "[1] \<noteq> ([] :: nat list)
     \<and> assigns_rows ex_rows_torch [1] [0] (index_rows ex_rows_torch (Rows2 2 3) [1])"
    by (simp add: assigns_rows_def ex_rows_torch_def)
  note t = fidelity_boundary[where torch = ex_rows_torch and self = ex_rows_block
      and n = "Rows2 2 3" and attn_context = "Rows2 2 3" and attn_value = None
      and uc_idx_mask = "[1]" and others = "[0]" and real_bank = "[Rows2 70 70]"
      and x = "Rows2 2 3" and y_uc = "Rows2 70 70"]
  have a: "index_rows ex_rows_torch
        (attn_read_output ex_rows_torch ex_rows_block (Rows2 2 3) (Rows2 2 3) None [1] 1
           [Rows2 70 70]) [1]
      = attn_uc_rows ex_rows_torch ex_rows_block (Rows2 2 3) (Rows2 2 3) None [1]
      \<and> index_rows ex_rows_torch
        (attn_read_output ex_rows_torch ex_rows_block (Rows2 2 3) (Rows2 2 3) None [1] 1
           [Rows2 70 70]) [0]
      = index_rows ex_rows_torch
          (attn_n_uc ex_rows_torch ex_rows_block (Rows2 2 3) (Rows2 2 3) None [Rows2 70 70])
          [0]"
    by (rule mp[OF t[THEN conjunct2, THEN conjunct2, THEN conjunct2, THEN conjunct2,
            THEN conjunct1] p1])
  have g: "index_rows ex_rows_torch
        (adain_read_output ex_rows_torch (Rows2 2 3) [1] 1 (Rows2 70 70)) [1]
      = index_rows ex_rows_torch (Rows2 2 3) [1]
      \<and> index_rows ex_rows_torch
        (adain_read_output ex_rows_torch (Rows2 2 3) [1] 1 (Rows2 70 70)) [0]
      = index_rows ex_rows_torch (Rows2 70 70) [0]"
    by (rule mp[OF t[THEN conjunct2, THEN conjunct2, THEN conjunct2, THEN conjunct2,
            THEN conjunct2, THEN conjunct2, THEN conjunct2, THEN conjunct2, THEN conjunct2,
            THEN conjunct1] p2])
  have z: "attn_read_output ex_rows_torch ex_rows_block (Rows2 2 3) (Rows2 2 3) None [1] 0
        [Rows2 70 70]
      = attn_n_uc ex_rows_torch ex_rows_block (Rows2 2 3) (Rows2 2 3) None [Rows2 70 70]"
    "adain_read_output ex_rows_torch (Rows2 2 3) [1] 0 (Rows2 70 70) = Rows2 70 70"
    using t by blast+
  have v: "attn_uc_rows ex_rows_torch ex_rows_block (Rows2 2 3) (Rows2 2 3) None [1]
           = Rows2 0 33"
    "index_rows ex_rows_torch
       (attn_n_uc ex_rows_torch ex_rows_block (Rows2 2 3) (Rows2 2 3) None [Rows2 70 70]) [0]
     = Rows2 722 0"
    "attn_n_uc ex_rows_torch ex_rows_block (Rows2 2 3) (Rows2 2 3) None [Rows2 70 70]
     = Rows2 722 733"
    "index_rows ex_rows_torch (Rows2 2 3) [1] = Rows2 0 3"
    "index_rows ex_rows_torch (Rows2 70 70) [0] = Rows2 70 0"
    "index_rows ex_rows_torch (Rows2 722 733) [0] = Rows2 722 0"
    by (simp_all add: attn_uc_rows_def attn_n_uc_def ex_rows_torch_def ex_rows_block_def
        rows2_eval)
  show ?thesis
    using p1 p2 a g z l1' l2' unfolding v by blast
qed


text \<open>
  C9 as stated fails at fidelity 1. A batch of one conditional row (row 0) and one
  unconditional row (row 1), a unit of fidelity 1, and a bank holding one entry: with
  the entry 70 the attention READ returns 722 in row 0, with the entry 71 it returns
  732, and the normalization READ returns 70 and 71; only row 1 is the same. With no
  unconditional row the whole output is that of the bank-blended branch.
\<close>

theorem fidelity_one_depends_on_bank:
  "fst (reference_attn1 ex_rows_torch ex_rows_block (ex_rows_attn_written (Rows2 70 70) 1)
          (Rows2 2 3) None (ex_rows_read 1 [1])) = Inr (Rows2 722 33)
   \<and> fst (reference_attn1 ex_rows_torch ex_rows_block (ex_rows_attn_written (Rows2 71 71) 1)
          (Rows2 2 3) None (ex_rows_read 1 [1])) = Inr (Rows2 732 33)
   \<and> fst (forward_timestep_embed_ref_inject ex_rows_torch
            (Some (ex_rows_gn_written (Rows2 70 70) 1)) (Rows2 2 3) (ex_rows_read 1 [1]))
       = Inr (Rows2 70 3)
   \<and> fst (forward_timestep_embed_ref_inject ex_rows_torch
            (Some (ex_rows_gn_written (Rows2 71 71) 1)) (Rows2 2 3) (ex_rows_read 1 [1]))
       = Inr (Rows2 71 3)
   \<and> fst (reference_attn1 ex_rows_torch ex_rows_block (ex_rows_attn_written (Rows2 70 70) 1)
          (Rows2 2 3) None (ex_rows_read 1 [])) = Inr (Rows2 722 733)
   \<and> fst (reference_attn1 ex_rows_torch ex_rows_block (ex_rows_attn_written (Rows2 71 71) 1)
          (Rows2 2 3) None (ex_rows_read 1 [])) = Inr (Rows2 732 743)"
  by (simp add: ex_rows_eval)


subsection \<open>Order matching\<close>

















subsection \<open>ContextRef entries over several calls\<close>










lemma below_weight_clean_ref:
  "below_weight cref (map_option attn_holder_clean_ref m) = below_weight cref m"
  by (cases m) (simp_all add: below_weight_def attn_holder_clean_ref_def)




lemma running_set_state [simp]:
  "running_ref_controlnets (set_contextref_attn_state st w) = running_ref_controlnets w"
  "running_context_controlnets (set_contextref_attn_state st w) = running_context_controlnets w"
  by (simp_all add: running_ref_controlnets_def running_context_controlnets_def
      set_contextref_attn_state_def)


















end
